theory Spec2Isabelle
  imports Main "HOL-Library.Sublist"
begin

section \<open>Python-NoAdmin installer: a shallow embedding of install.py\<close>

text \<open>
  The installer is a linear script over the host: it reads the platform identifiers,
  the filesystem, the registry, the network and the answers of child processes, and it
  writes to the filesystem, the registry and the terminal. The embedding keeps the
  source's function names and its control flow. Every \<open>raise\<close> of the source is an
  \<open>Inl\<close> result, every call that changes the host returns the changed \<open>world\<close> and
  appends an \<open>event\<close> to its log.

  Calls into the Python standard library are modelled by their documented successful
  behaviour on a well-formed filesystem: a directory can be made where the source makes
  one, a file the source reads after \<open>exists()\<close> is a text file, an archive the source
  has just downloaded can be opened. The failures that the source handles, or that
  its own logic brings about, are branches of the model: a failed network request
  (\<open>download_file\<close>), a registry key that cannot be opened
  (\<open>configure_path_windows\<close>), a child process that cannot be started
  (\<open>subprocess.run\<close> raises \<open>OSError\<close>), and a hard link of a tarball whose target
  \<open>tarfile\<close> cannot find (\<open>KeyError\<close>). Messages are logged with their level and
  without the ANSI colour codes; a version string is taken to name one path component.
\<close>

subsection \<open>Python strings\<close>

text \<open>\<open>str.lower()\<close> on the ASCII range; other bytes are left as they are.\<close>

definition lower_char :: "char \<Rightarrow> char" where
  "lower_char c =
     (case map_of (zip ''ABCDEFGHIJKLMNOPQRSTUVWXYZ'' ''abcdefghijklmnopqrstuvwxyz'') c of
        Some l \<Rightarrow> l
      | None \<Rightarrow> c)"

definition lower :: "string \<Rightarrow> string" where
  "lower s = map lower_char s"

text \<open>\<open>s.split(c)\<close> for a one-character separator: never empty, keeps empty fields.\<close>

fun split_on :: "char \<Rightarrow> string \<Rightarrow> string list" where
  "split_on c [] = [[]]"
| "split_on c (x # xs) =
     (if x = c then [] # split_on c xs
      else (case split_on c xs of [] \<Rightarrow> [[x]] | y # ys \<Rightarrow> (x # y) # ys))"

text \<open>\<open>sep.join(xs)\<close>.\<close>

fun join :: "string \<Rightarrow> string list \<Rightarrow> string" where
  "join sep [] = []"
| "join sep [x] = x"
| "join sep (x # y # ys) = x @ sep @ join sep (y # ys)"

text \<open>
  The newline, the single quote, the double quote and the backslash, as one-character
  strings.
\<close>

definition nl :: string where
  "nl = [CHR 0x0A]"

definition sq :: string where
  "sq = [CHR 0x27]"

definition dq :: string where
  "dq = [CHR 0x22]"

definition bs :: string where
  "bs = [CHR 0x5C]"

text \<open>\<open>s.endswith(suffix)\<close>.\<close>

definition endswith :: "string \<Rightarrow> string \<Rightarrow> bool" where
  "endswith s sfx = suffix sfx s"

text \<open>\<open>s.find(sub)\<close>: the index of the first occurrence, \<open>None\<close> for Python's \<open>-1\<close>.\<close>

fun py_find :: "string \<Rightarrow> string \<Rightarrow> nat option" where
  "py_find sub [] = (if sub = [] then Some 0 else None)"
| "py_find sub (c # cs) =
     (if prefix sub (c # cs) then Some 0 else map_option Suc (py_find sub cs))"

text \<open>\<open>sub in s\<close>.\<close>

definition py_in :: "string \<Rightarrow> string \<Rightarrow> bool" where
  "py_in sub s = (py_find sub s \<noteq> None)"

text \<open>
  \<open>s.replace(old, new)\<close>: every non-overlapping occurrence, scanning from the left. With
  an empty \<open>old\<close> Python puts \<open>new\<close> before every character and at the end.
\<close>

function py_replace :: "string \<Rightarrow> string \<Rightarrow> string \<Rightarrow> string" where
  "py_replace old new [] = (if old = [] then new else [])"
| "py_replace old new (c # cs) =
     (if old = [] then new @ c # py_replace old new cs
      else if prefix old (c # cs) then new @ py_replace old new (drop (length old) (c # cs))
      else c # py_replace old new cs)"
  by pat_completeness auto
termination
  by (relation "measure (\<lambda>(old, new, s). length s)") auto

text \<open>\<open>s.count(sub)\<close> for a non-empty \<open>sub\<close>: non-overlapping occurrences from the left.\<close>

function py_count :: "string \<Rightarrow> string \<Rightarrow> nat" where
  "py_count sub [] = (if sub = [] then 1 else 0)"
| "py_count sub (c # cs) =
     (if sub = [] then Suc (py_count sub cs)
      else if prefix sub (c # cs) then Suc (py_count sub (drop (length sub) (c # cs)))
      else py_count sub cs)"
  by pat_completeness auto
termination
  by (relation "measure (\<lambda>(sub, s). length s)") auto

text \<open>\<open>s.strip()\<close>: the ASCII whitespace Python strips.\<close>

definition is_space :: "char \<Rightarrow> bool" where
  "is_space c = (c \<in> set [CHR '' '', CHR 0x09, CHR 0x0A, CHR 0x0B, CHR 0x0C, CHR 0x0D,
                            CHR 0x1C, CHR 0x1D, CHR 0x1E, CHR 0x1F])"

definition strip :: "string \<Rightarrow> string" where
  "strip s = rev (dropWhile is_space (rev (dropWhile is_space s)))"

subsection \<open>Exceptions\<close>

datatype exn =
    RuntimeError string
  | ValueError string
  | KeyError string
  | TypeError string
  | OSError string
  | SystemExit int

subsection \<open>Configuration\<close>

definition DEFAULT_VERSION :: string where
  "DEFAULT_VERSION = ''3.12.8''"

definition INSTALL_DIR_NAME :: string where
  "INSTALL_DIR_NAME = ''.python-nonadmin''"

definition PBS_RELEASE_TAG :: string where
  "PBS_RELEASE_TAG = ''20241206''"

definition PBS_BASE_URL :: string where
  "PBS_BASE_URL = ''https://github.com/indygreg/python-build-standalone/releases/download''"

definition PYTHON_ORG_BASE :: string where
  "PYTHON_ORG_BASE = ''https://www.python.org/ftp/python''"

definition GET_PIP_URL :: string where
  "GET_PIP_URL = ''https://bootstrap.pypa.io/get-pip.py''"

definition AVAILABLE_VERSIONS :: "string list" where
  "AVAILABLE_VERSIONS = [''3.12.8'', ''3.12.7'', ''3.11.9'', ''3.11.8'', ''3.10.14'', ''3.10.13'']"

subsection \<open>Platform detection\<close>

text \<open>
  The two arguments are what \<open>platform.system()\<close> and \<open>platform.machine()\<close> return on
  the host; \<open>system\<close> and \<open>machine\<close> are the source's lower-cased variables.
\<close>

definition get_platform_info :: "string \<Rightarrow> string \<Rightarrow> exn + (string \<times> string)" where
  "get_platform_info platform_system platform_machine =
     (let system = lower platform_system;
          machine = lower platform_machine
      in case (if system = ''darwin'' then Inr ''macos''
               else if system = ''windows'' then Inr ''windows''
               else if system = ''linux'' then Inr ''linux''
               else Inl (RuntimeError (''Unsupported operating system: '' @ system))) of
           Inl e \<Rightarrow> Inl e
         | Inr os_name \<Rightarrow>
             (case (if machine \<in> set [''x86_64'', ''amd64''] then Inr ''x86_64''
                    else if machine \<in> set [''aarch64'', ''arm64''] then Inr ''aarch64''
                    else if machine \<in> set [''i386'', ''i686''] then Inr ''x86''
                    else Inl (RuntimeError (''Unsupported architecture: '' @ machine))) of
                Inl e \<Rightarrow> Inl e
              | Inr arch \<Rightarrow> Inr (os_name, arch)))"

text \<open>
  The known enumeration as two tables, host identifier and canonical name, against
  which the chain of comparisons above is checked.
\<close>

definition os_names :: "(string \<times> string) list" where
  "os_names = [(''darwin'', ''macos''), (''windows'', ''windows''), (''linux'', ''linux'')]"

definition arch_names :: "(string \<times> string) list" where
  "arch_names = [(''x86_64'', ''x86_64''), (''amd64'', ''x86_64''), (''aarch64'', ''aarch64''),
                 (''arm64'', ''aarch64''), (''i386'', ''x86''), (''i686'', ''x86'')]"

subsection \<open>Download URLs\<close>

definition get_pbs_download_url :: "string \<Rightarrow> string \<Rightarrow> string \<Rightarrow> exn + string" where
  "get_pbs_download_url version os_name arch =
     (case (if os_name = ''macos'' then Inr (arch @ ''-apple-darwin'')
            else if os_name = ''linux'' then Inr (arch @ ''-unknown-linux-gnu'')
            else Inl (ValueError (''PBS not available for '' @ os_name))) of
        Inl e \<Rightarrow> Inl e
      | Inr target \<Rightarrow>
          (let filename = ''cpython-'' @ version @ ''+'' @ PBS_RELEASE_TAG @ ''-'' @ target
                            @ ''-install_only.tar.gz''
           in Inr (PBS_BASE_URL @ ''/'' @ PBS_RELEASE_TAG @ ''/'' @ filename)))"

definition get_windows_embed_url :: "string \<Rightarrow> string \<Rightarrow> exn + string" where
  "get_windows_embed_url version arch =
     (case (if arch = ''x86_64'' then Inr ''amd64''
            else if arch = ''x86'' then Inr ''win32''
            else if arch = ''aarch64'' then Inr ''arm64''
            else Inl (ValueError (''Unknown Windows architecture: '' @ arch))) of
        Inl e \<Rightarrow> Inl e
      | Inr arch_suffix \<Rightarrow>
          Inr (PYTHON_ORG_BASE @ ''/'' @ version @ ''/python-'' @ version @ ''-embed-''
                 @ arch_suffix @ ''.zip''))"

subsection \<open>The host\<close>

text \<open>
  A path is the list of its components below the anchor (\<open>/\<close>, or a drive such as
  \<open>C:\\<close>); \<open>p / name\<close> is \<open>p @ [name]\<close>. The filesystem records which paths are
  directories and the text of every regular file, as Python's text mode reads it. The
  symbolic links that an extraction makes are kept in a table of their own:
  \<open>path_exists\<close> and \<open>read_text\<close> look at directories and regular files and follow
  no link. The answer of a child process is its \<open>CompletedProcess\<close>, or the text of the
  \<open>OSError\<close> when it cannot be started.
\<close>

type_synonym path = "string list"

text \<open>
  A member of a tarball is a directory, a regular file with its text, a symbolic link
  or a hard link with its \<open>linkname\<close>. An entry of a zip archive is a file name and its
  data; a name that ends in a slash is a directory.
\<close>

datatype entry = EDir | EFile string | ESymlink string | EHardlink string

record member =
  m_name :: string
  m_entry :: entry

type_synonym zip_entry = "string \<times> string"

datatype response = HTTPError string string | URLError string | Body string

record completed =
  returncode :: int
  stdout :: string
  stderr :: string

record host =
  platform_system :: string
  platform_machine :: string
  anchor :: string
  sep :: string
  home :: path
  env_SHELL :: "string option"
  tmpdir :: path
  urlopen :: "string \<Rightarrow> response"
  run :: "nat \<Rightarrow> string list \<Rightarrow> string + completed"
  stdin :: string
  zip_members :: "string \<Rightarrow> zip_entry list"
  tar_members :: "string \<Rightarrow> member list"

datatype regkey = Denied string | Opened "string \<rightharpoonup> string"

datatype level = INFO | SUCCESS | WARNING | ERROR

datatype event =
    Say level string
  | Print string
  | Request string
  | Run "string list"
  | Input string
  | MkTemp path
  | MkdirParents path
  | RmTree path
  | WriteFile path
  | AppendFile path
  | Extracted string path
  | ChmodExecutable path
  | SetValue string string

record world =
  dirs :: "path \<Rightarrow> bool"
  files :: "path \<rightharpoonup> string"
  symlinks :: "path \<rightharpoonup> string"
  registry :: regkey
  events :: "event list"

definition str_path :: "host \<Rightarrow> path \<Rightarrow> string" where
  "str_path h p = anchor h @ join (sep h) p"

definition path_name :: "path \<Rightarrow> string" where
  "path_name p = (if p = [] then [] else last p)"

text \<open>\<open>Path(s)\<close> for a POSIX path string: empty and \<open>.\<close> components are dropped.\<close>

definition path_of_string :: "string \<Rightarrow> path" where
  "path_of_string s = filter (\<lambda>c. c \<noteq> [] \<and> c \<noteq> ''.'') (split_on CHR ''/'' s)"

text \<open>\<open>Path.suffix\<close>: the name from its last dot on, unless that dot is first or last.\<close>

definition path_suffix :: "path \<Rightarrow> string" where
  "path_suffix p =
     (let name = path_name p in
      case py_find ''.'' (rev name) of
        None \<Rightarrow> []
      | Some j \<Rightarrow>
          (let i = length name - 1 - j in
           if 0 < i \<and> i < length name - 1 then drop i name else []))"

subsection \<open>Output\<close>

definition emit :: "event \<Rightarrow> world \<Rightarrow> world" where
  "emit e w = w\<lparr>events := events w @ [e]\<rparr>"

definition info :: "string \<Rightarrow> world \<Rightarrow> world" where
  "info msg = emit (Say INFO msg)"

definition success :: "string \<Rightarrow> world \<Rightarrow> world" where
  "success msg = emit (Say SUCCESS msg)"

definition warn :: "string \<Rightarrow> world \<Rightarrow> world" where
  "warn msg = emit (Say WARNING msg)"

definition error :: "string \<Rightarrow> world \<Rightarrow> world" where
  "error msg = emit (Say ERROR msg)"

definition print :: "string \<Rightarrow> world \<Rightarrow> world" where
  "print line = emit (Print line)"

definition header :: "string \<Rightarrow> world \<Rightarrow> world" where
  "header msg w =
     print [] (print (replicate 50 CHR ''='') (print (''  '' @ msg)
       (print (replicate 50 CHR ''='') (print [] w))))"

subsection \<open>Filesystem, processes and registry\<close>

definition path_exists :: "path \<Rightarrow> world \<Rightarrow> bool" where
  "path_exists p w = (dirs w p \<or> files w p \<noteq> None)"

definition mkdir_parents :: "path \<Rightarrow> world \<Rightarrow> world" where
  "mkdir_parents p w = emit (MkdirParents p) (w\<lparr>dirs := (\<lambda>q. prefix q p \<or> dirs w q)\<rparr>)"

definition rmtree :: "path \<Rightarrow> world \<Rightarrow> world" where
  "rmtree p w =
     emit (RmTree p)
       (w\<lparr>dirs := (\<lambda>q. dirs w q \<and> \<not> prefix p q),
          files := (\<lambda>q. if prefix p q then None else files w q),
          symlinks := (\<lambda>q. if prefix p q then None else symlinks w q)\<rparr>)"

text \<open>The text of a file; the empty text where no file is, which \<open>append_text\<close> extends.\<close>

definition read_text :: "path \<Rightarrow> world \<Rightarrow> string" where
  "read_text p w = (case files w p of None \<Rightarrow> [] | Some s \<Rightarrow> s)"

definition write_text :: "path \<Rightarrow> string \<Rightarrow> world \<Rightarrow> world" where
  "write_text p s w = emit (WriteFile p) (w\<lparr>files := (files w)(p \<mapsto> s)\<rparr>)"

text \<open>\<open>open(p, "a")\<close> and one \<open>write\<close>: the file is created when it is absent.\<close>

definition append_text :: "path \<Rightarrow> string \<Rightarrow> world \<Rightarrow> world" where
  "append_text p s w = emit (AppendFile p) (w\<lparr>files := (files w)(p \<mapsto> read_text p w @ s)\<rparr>)"

text \<open>
  \<open>tempfile.TemporaryDirectory()\<close> as a context manager: the directory is made, the
  body runs, and the directory is removed whether the body returned or raised.
\<close>

definition with_tempdir ::
  "host \<Rightarrow> (path \<Rightarrow> world \<Rightarrow> (exn + 'a) \<times> world) \<Rightarrow> world \<Rightarrow> (exn + 'a) \<times> world" where
  "with_tempdir h body w =
     (let t = tmpdir h;
          w1 = emit (MkTemp t) (w\<lparr>dirs := (\<lambda>q. q = t \<or> dirs w q)\<rparr>)
      in case body t w1 of (r, w2) \<Rightarrow> (r, rmtree t w2))"

text \<open>
  \<open>subprocess.run\<close>: the answer of the child is an input, indexed by the number of
  children started before it. A child that cannot be started raises \<open>OSError\<close>.
\<close>

fun is_Run :: "event \<Rightarrow> bool" where
  "is_Run (Run args) = True"
| "is_Run e = False"

definition spawn :: "host \<Rightarrow> string list \<Rightarrow> world \<Rightarrow> (exn + completed) \<times> world" where
  "spawn h args w =
     (case run h (length (filter is_Run (events w))) args of
        Inl msg \<Rightarrow> (Inl (OSError msg), emit (Run args) w)
      | Inr result \<Rightarrow> (Inr result, emit (Run args) w))"

subsection \<open>The archive libraries\<close>

text \<open>\<open>os.path.normpath\<close> on a POSIX path string.\<close>

definition initial_slashes :: "string \<Rightarrow> nat" where
  "initial_slashes s =
     (if \<not> prefix ''/'' s then 0 else if prefix ''//'' s \<and> \<not> prefix ''///'' s then 2 else 1)"

fun norm_comps :: "nat \<Rightarrow> string list \<Rightarrow> string list \<Rightarrow> string list" where
  "norm_comps i new_comps [] = new_comps"
| "norm_comps i new_comps (seg # segs) =
     (if seg = [] \<or> seg = ''.'' then norm_comps i new_comps segs
      else if seg \<noteq> ''..'' \<or> (i = 0 \<and> new_comps = [])
                \<or> (new_comps \<noteq> [] \<and> last new_comps = ''..'')
      then norm_comps i (new_comps @ [seg]) segs
      else if new_comps \<noteq> [] then norm_comps i (butlast new_comps) segs
      else norm_comps i new_comps segs)"

definition normpath :: "string \<Rightarrow> string" where
  "normpath s =
     (if s = [] then ''.''
      else (let i = initial_slashes s;
                p = replicate i CHR ''/'' @ join ''/'' (norm_comps i [] (split_on CHR ''/'' s))
            in if p = [] then ''.'' else p))"

text \<open>
  The file that the system opens for \<open>os.path.join(dest, name)\<close>: an absolute name
  replaces \<open>dest\<close>, empty and \<open>.\<close> components vanish and \<open>..\<close> steps up, so a name can
  lead out of \<open>dest\<close>.
\<close>

fun resolve :: "path \<Rightarrow> string list \<Rightarrow> path" where
  "resolve base [] = base"
| "resolve base (seg # segs) =
     (if seg = [] \<or> seg = ''.'' then resolve base segs
      else if seg = ''..'' then resolve (butlast base) segs
      else resolve (base @ [seg]) segs)"

definition tar_target :: "path \<Rightarrow> string \<Rightarrow> path" where
  "tar_target dest name =
     (if prefix ''/'' name then resolve [] (split_on CHR ''/'' name)
      else resolve dest (split_on CHR ''/'' name))"

text \<open>\<open>os.makedirs(os.path.dirname(targetpath))\<close>.\<close>

definition make_upperdirs :: "path \<Rightarrow> world \<Rightarrow> world" where
  "make_upperdirs target w = w\<lparr>dirs := (\<lambda>q. strict_prefix q target \<or> dirs w q)\<rparr>"

text \<open>
  \<open>TarFile._extract_member\<close> for a member found in the table of the archive: a
  directory is made, a file written, a symbolic link created with its unchanged
  \<open>linkname\<close>. A hard link found this way has no prepared link target and the
  library fails on it.
\<close>

fun write_member :: "entry \<Rightarrow> path \<Rightarrow> world \<Rightarrow> (exn + unit) \<times> world" where
  "write_member EDir target w = (Inr (), w\<lparr>dirs := (dirs w)(target := True)\<rparr>)"
| "write_member (EFile s) target w = (Inr (), w\<lparr>files := (files w)(target \<mapsto> s)\<rparr>)"
| "write_member (ESymlink l) target w =
     (Inr (), w\<lparr>files := (files w)(target := None), symlinks := (symlinks w)(target \<mapsto> l)\<rparr>)"
| "write_member (EHardlink l) target w =
     (Inl (TypeError ''stat: path should be string, bytes, os.PathLike or integer, not NoneType''), w)"

text \<open>
  \<open>TarFile._find_link_target\<close> for a hard link: the last member before the link whose
  name, as it is now, equals the \<open>linkname\<close> after \<open>normpath\<close>.
\<close>

definition find_link_target :: "member list \<Rightarrow> string \<Rightarrow> member option" where
  "find_link_target prior linkname =
     find (\<lambda>p. normpath (m_name p) = normpath linkname) (rev prior)"

text \<open>
  \<open>tf.extract(member, dest)\<close>, with \<open>prior\<close> the members before this one as the
  table of the archive holds them now. For a hard link, \<open>makelink\<close> links to the
  file at \<open>os.path.join(dest, linkname)\<close> when there is one; otherwise it looks the
  \<open>linkname\<close> up among the prior members and extracts what it finds, and raises
  \<open>KeyError\<close> when it finds nothing. (When the link target is a directory, \<open>os.link\<close>
  fails and a failed lookup is only logged.)
\<close>

definition tar_extract :: "member list \<Rightarrow> member \<Rightarrow> path \<Rightarrow> world \<Rightarrow> (exn + unit) \<times> world" where
  "tar_extract prior m dest w =
     (let target = tar_target dest (m_name m);
          w1 = emit (Extracted (m_name m) dest) (make_upperdirs target w)
      in case m_entry m of
           EHardlink l \<Rightarrow>
             (case files w1 (tar_target dest l) of
                Some s \<Rightarrow> (Inr (), w1\<lparr>files := (files w1)(target \<mapsto> s)\<rparr>)
              | None \<Rightarrow>
                  (case find_link_target prior l of
                     Some p \<Rightarrow> write_member (m_entry p) target w1
                   | None \<Rightarrow>
                       if dirs w1 (tar_target dest l) then (Inr (), w1)
                       else (Inl (KeyError (''linkname '' @ sq @ l @ sq @ '' not found'')), w1)))
         | EDir \<Rightarrow> write_member EDir target w1
         | EFile s \<Rightarrow> write_member (EFile s) target w1
         | ESymlink l \<Rightarrow> write_member (ESymlink l) target w1)"

text \<open>\<open>tf.extractall(dest)\<close>: the members in the order of the archive.\<close>

fun tar_extractall :: "member list \<Rightarrow> member list \<Rightarrow> path \<Rightarrow> world \<Rightarrow> (exn + unit) \<times> world" where
  "tar_extractall prior [] dest w = (Inr (), w)"
| "tar_extractall prior (m # ms) dest w =
     (case tar_extract prior m dest w of
        (Inl e, w1) \<Rightarrow> (Inl e, w1)
      | (Inr u, w1) \<Rightarrow> tar_extractall (prior @ [m]) ms dest w1)"

text \<open>
  \<open>ZipFile._extract_member\<close>: the name is made relative, without empty, \<open>.\<close> and
  \<open>..\<close> components; on a host whose separator is the backslash a drive letter is
  dropped, the characters Windows forbids become underscores and trailing dots go.
\<close>

definition windows_illegal :: string where
  "windows_illegal = '':<>|'' @ dq @ ''?*''"

definition zip_parts :: "host \<Rightarrow> string \<Rightarrow> string list" where
  "zip_parts h filename =
     (if sep h = bs
      then (let arcname = map (\<lambda>c. if c = CHR ''/'' then CHR 0x5C else c) filename;
                nodrive = (if 2 \<le> length arcname \<and> arcname ! 1 = CHR '':''
                           then drop 2 arcname else arcname);
                parts = filter (\<lambda>x. x \<notin> set [[], ''.'', ''..'']) (split_on (CHR 0x5C) nodrive)
            in filter (\<lambda>x. x \<noteq> [])
                 (map (\<lambda>x. rev (dropWhile (\<lambda>c. c = CHR ''.'')
                                (rev (map (\<lambda>c. if c \<in> set windows_illegal then CHR ''_'' else c) x))))
                    parts))
      else filter (\<lambda>x. x \<notin> set [[], ''.'', ''..'']) (split_on CHR ''/'' filename))"

definition zip_place :: "host \<Rightarrow> zip_entry \<Rightarrow> path \<Rightarrow> world \<Rightarrow> world" where
  "zip_place h z dest w =
     (let filename = fst z;
          target = dest @ zip_parts h filename;
          w1 = emit (Extracted filename dest) (make_upperdirs target w)
      in if endswith filename ''/'' \<or> (sep h = bs \<and> endswith filename bs)
         then w1\<lparr>dirs := (dirs w1)(target := True)\<rparr>
         else w1\<lparr>files := (files w1)(target \<mapsto> snd z)\<rparr>)"

text \<open>\<open>zf.extractall(dest)\<close>.\<close>

fun zip_extractall :: "host \<Rightarrow> zip_entry list \<Rightarrow> path \<Rightarrow> world \<Rightarrow> world" where
  "zip_extractall h [] dest w = w"
| "zip_extractall h (z # zs) dest w = zip_extractall h zs dest (zip_place h z dest w)"

subsection \<open>Download and extraction\<close>

text \<open>The progress line of the download loop is left out of the log.\<close>

definition download_file :: "host \<Rightarrow> string \<Rightarrow> path \<Rightarrow> string \<Rightarrow> world \<Rightarrow> (exn + unit) \<times> world" where
  "download_file h url dest description w =
     (let w1 = info (''Downloading '' @ description @ ''...'') w;
          w2 = info (''URL: '' @ url) w1;
          w3 = emit (Request url) w2
      in case urlopen h url of
           HTTPError code reason \<Rightarrow>
             (Inl (RuntimeError (''HTTP Error '' @ code @ '': '' @ reason
                     @ ''. URL may be invalid for this version.'')), w3)
         | URLError reason \<Rightarrow>
             (Inl (RuntimeError (''Network error: '' @ reason
                     @ ''. Check your internet connection.'')), w3)
         | Body data \<Rightarrow>
             (Inr (), success (''Downloaded: '' @ path_name dest)
                        (print [] (write_text dest data w3))))"

text \<open>
  The loop over \<open>tf.getmembers()\<close> of the branch \<open>strip_components > 0\<close>. The
  assignment to \<open>member.name\<close> changes the table of the archive, so the members already
  visited are kept in \<open>prior\<close> under the names they have now; \<open>linkname\<close> is never
  changed. An exception of \<open>tf.extract\<close> ends the loop.
\<close>

fun extract_stripped ::
  "member list \<Rightarrow> member list \<Rightarrow> int \<Rightarrow> path \<Rightarrow> world \<Rightarrow> (exn + unit) \<times> world" where
  "extract_stripped prior [] strip_components dest w = (Inr (), w)"
| "extract_stripped prior (m # ms) strip_components dest w =
     (let parts = split_on CHR ''/'' (m_name m) in
      if int (length parts) > strip_components
      then (let renamed = m\<lparr>m_name := join ''/'' (drop (nat strip_components) parts)\<rparr> in
            case tar_extract prior renamed dest w of
              (Inl e, w1) \<Rightarrow> (Inl e, w1)
            | (Inr u, w1) \<Rightarrow> extract_stripped (prior @ [renamed]) ms strip_components dest w1)
      else extract_stripped (prior @ [m]) ms strip_components dest w)"

definition extract_archive :: "host \<Rightarrow> path \<Rightarrow> path \<Rightarrow> int \<Rightarrow> world \<Rightarrow> (exn + unit) \<times> world" where
  "extract_archive h archive dest strip_components w =
     (let w1 = info (''Extracting to: '' @ str_path h dest) w;
          w2 = mkdir_parents dest w1
      in if path_suffix archive = ''.zip'' \<or> endswith (path_name archive) ''.zip''
         then (Inr (), success ''Extraction complete''
                         (zip_extractall h (zip_members h (read_text archive w2)) dest w2))
         else if endswith (path_name archive) ''.tar.gz'' \<or> endswith (path_name archive) ''.tgz''
         then (case (if strip_components > 0
                     then extract_stripped [] (tar_members h (read_text archive w2))
                            strip_components dest w2
                     else tar_extractall [] (tar_members h (read_text archive w2)) dest w2) of
                 (Inl e, w3) \<Rightarrow> (Inl e, w3)
               | (Inr u, w3) \<Rightarrow> (Inr (), success ''Extraction complete'' w3))
         else (Inl (ValueError (''Unknown archive format: '' @ path_name archive)), w2))"

subsection \<open>Windows installation\<close>

text \<open>
  The block of \<open>install_windows\<close> that configures the \<open>._pth\<close> file, after the
  extraction.
\<close>

definition configure_pth :: "string \<Rightarrow> path \<Rightarrow> world \<Rightarrow> world" where
  "configure_pth version install_dir w =
     (let major_minor = concat (take 2 (split_on CHR ''.'' version));
          pth_file = install_dir @ [''python'' @ major_minor @ ''._pth'']
      in if path_exists pth_file w
         then (let w1 = info (''Configuring '' @ path_name pth_file @ '' for pip support...'') w;
                   content = read_text pth_file w1
               in if py_in ''#import site'' content
                  then success (''Enabled '' @ sq @ ''import site'' @ sq)
                         (write_text pth_file (py_replace ''#import site'' ''import site'' content) w1)
                  else if \<not> py_in ''import site'' content
                  then success (''Added '' @ sq @ ''import site'' @ sq)
                         (append_text pth_file (nl @ ''import site'' @ nl) w1)
                  else w1)
         else w)"

definition remove_existing :: "path \<Rightarrow> world \<Rightarrow> world" where
  "remove_existing install_dir w =
     (if path_exists install_dir w
      then rmtree install_dir (warn ''Removing existing installation...'' w)
      else w)"

text \<open>The \<open>with\<close> block of \<open>install_windows\<close>: download, removal, extraction.\<close>

definition fetch_embeddable ::
  "host \<Rightarrow> string \<Rightarrow> path \<Rightarrow> string \<Rightarrow> world \<Rightarrow> (exn + unit) \<times> world" where
  "fetch_embeddable h version install_dir url w =
     with_tempdir h
       (\<lambda>temp_path w0.
          let zip_file = temp_path @ [''python-embed.zip''] in
          case download_file h url zip_file (''Python '' @ version @ '' embeddable package'') w0 of
            (Inl e, w1) \<Rightarrow> (Inl e, w1)
          | (Inr u, w1) \<Rightarrow>
              extract_archive h zip_file install_dir 0 (remove_existing install_dir w1))
       w"

definition install_windows :: "host \<Rightarrow> string \<Rightarrow> path \<Rightarrow> string \<Rightarrow> world \<Rightarrow> (exn + path) \<times> world" where
  "install_windows h version install_dir arch w =
     (case get_windows_embed_url version arch of
        Inl e \<Rightarrow> (Inl e, w)
      | Inr url \<Rightarrow>
          (case fetch_embeddable h version install_dir url w of
             (Inl e, w2) \<Rightarrow> (Inl e, w2)
           | (Inr u, w2) \<Rightarrow> (Inr (install_dir @ [''python.exe'']), configure_pth version install_dir w2)))"

subsection \<open>Unix installation\<close>

text \<open>
  The \<open>try\<close> around the \<open>xattr\<close> call swallows a child that cannot be started. The
  loop that marks the regular files of \<open>bin\<close> executable is one event: the filesystem
  of the model keeps no permission bits.
\<close>

definition install_unix ::
  "host \<Rightarrow> string \<Rightarrow> path \<Rightarrow> string \<Rightarrow> string \<Rightarrow> world \<Rightarrow> (exn + path) \<times> world" where
  "install_unix h version install_dir os_name arch w =
     (case get_pbs_download_url version os_name arch of
        Inl e \<Rightarrow> (Inl e, w)
      | Inr url \<Rightarrow>
          (case with_tempdir h
                  (\<lambda>temp_path w0.
                     let tarball = temp_path @ [''python.tar.gz''] in
                     case download_file h url tarball (''Python '' @ version) w0 of
                       (Inl e, w1) \<Rightarrow> (Inl e, w1)
                     | (Inr u, w1) \<Rightarrow>
                         extract_archive h tarball install_dir 1 (remove_existing install_dir w1))
                  w of
             (Inl e, w2) \<Rightarrow> (Inl e, w2)
           | (Inr u, w2) \<Rightarrow>
               (let w3 = (if os_name = ''macos''
                          then (case spawn h [''xattr'', ''-dr'', ''com.apple.quarantine'',
                                              str_path h install_dir]
                                       (info ''Removing macOS quarantine attributes...'' w2) of
                                  (Inl e, wx) \<Rightarrow> wx
                                | (Inr result, wx) \<Rightarrow> success ''Quarantine attributes removed'' wx)
                          else w2);
                    bin_dir = install_dir @ [''bin''];
                    w4 = (if path_exists bin_dir w3 then emit (ChmodExecutable bin_dir) w3 else w3)
                in (Inr (bin_dir @ [''python3'']), w4))))"

subsection \<open>pip installation\<close>

definition install_pip :: "host \<Rightarrow> path \<Rightarrow> path \<Rightarrow> world \<Rightarrow> (exn + unit) \<times> world" where
  "install_pip h python_exe install_dir w =
     (case spawn h [str_path h python_exe, ''-m'', ''pip'', ''--version'']
             (info ''Checking pip installation...'' w) of
        (Inl e, w1) \<Rightarrow> (Inl e, w1)
      | (Inr result, w1) \<Rightarrow>
          if returncode result = 0
          then (case spawn h [str_path h python_exe, ''-m'', ''pip'', ''install'', ''--upgrade'',
                              ''pip'', ''--quiet'']
                       (info ''Upgrading pip to latest version...''
                          (success (''pip already installed: '' @ strip (stdout result)) w1)) of
                  (Inl e, w2) \<Rightarrow> (Inl e, w2)
                | (Inr upgraded, w2) \<Rightarrow> (Inr (), w2))
          else
            (case with_tempdir h
                    (\<lambda>temp_dir w0.
                       let get_pip_path = temp_dir @ [''get-pip.py''] in
                       case download_file h GET_PIP_URL get_pip_path ''get-pip.py'' w0 of
                         (Inl e, w2) \<Rightarrow> (Inl e, w2)
                       | (Inr u, w2) \<Rightarrow>
                           (case spawn h [str_path h python_exe, str_path h get_pip_path,
                                          ''--no-warn-script-location''] w2 of
                              (Inl e, w3) \<Rightarrow> (Inl e, w3)
                            | (Inr result2, w3) \<Rightarrow>
                                if returncode result2 \<noteq> 0
                                then (Inl (RuntimeError ''Failed to install pip''),
                                      error (''pip installation failed: '' @ stderr result2) w3)
                                else (Inr (), w3)))
                    (info ''Installing pip...'' w1) of
               (Inl e, w4) \<Rightarrow> (Inl e, w4)
             | (Inr u, w4) \<Rightarrow>
                 (case spawn h [str_path h python_exe, ''-m'', ''pip'', ''--version''] w4 of
                    (Inl e, w5) \<Rightarrow> (Inl e, w5)
                  | (Inr result3, w5) \<Rightarrow>
                      (Inr (),
                       if returncode result3 = 0
                       then success (''pip installed: '' @ strip (stdout result3)) w5
                       else warn ''pip installation may have issues'' w5))))"

subsection \<open>PATH configuration\<close>

text \<open>The loop over \<open>paths_to_add\<close>: \<open>path_parts.insert(0, path_to_add)\<close>.\<close>

fun add_paths :: "string list \<Rightarrow> string list \<Rightarrow> bool \<Rightarrow> string list \<times> bool" where
  "add_paths [] path_parts modified = (path_parts, modified)"
| "add_paths (path_to_add # rest) path_parts modified =
     (if path_to_add \<notin> set path_parts
      then add_paths rest (path_to_add # path_parts) True
      else add_paths rest path_parts modified)"

fun print_all :: "string list \<Rightarrow> world \<Rightarrow> world" where
  "print_all [] w = w"
| "print_all (l # ls) w = print_all ls (print l w)"

definition set_value :: "string \<Rightarrow> string \<Rightarrow> world \<Rightarrow> world" where
  "set_value name v w =
     emit (SetValue name v)
       (w\<lparr>registry := (case registry w of
                          Denied e \<Rightarrow> Denied e
                        | Opened vals \<Rightarrow> Opened (vals(name \<mapsto> v)))\<rparr>)"

definition configure_path_windows :: "host \<Rightarrow> path \<Rightarrow> world \<Rightarrow> world" where
  "configure_path_windows h install_dir w =
     (let scripts_dir = install_dir @ [''Scripts''];
          paths_to_add = [str_path h install_dir, str_path h scripts_dir];
          w1 = info ''Updating user PATH...'' w
      in case registry w1 of
           Denied e \<Rightarrow>
             print_all (map (\<lambda>p. ''  '' @ p) paths_to_add)
               (info ''Please add these directories to your PATH manually:''
                  (warn (''Could not update PATH automatically: '' @ e) w1))
         | Opened vals \<Rightarrow>
             (let current_path = (case vals ''PATH'' of None \<Rightarrow> [] | Some v \<Rightarrow> v);
                  path_parts = (if current_path \<noteq> [] then split_on CHR '';'' current_path else [])
              in case add_paths paths_to_add path_parts False of
                   (new_parts, modified) \<Rightarrow>
                     if modified
                     then warn ''Restart your terminal for PATH changes to take effect''
                            (success ''Added to user PATH''
                               (set_value ''PATH'' (join '';'' new_parts) w1))
                     else info ''Already in user PATH'' w1))"

definition marker :: string where
  "marker = ''# Python-NoAdmin PATH''"

text \<open>The shell is read from the environment; \<open>shell_name\<close> is \<open>Path(shell).name\<close>.\<close>

definition detect_shell :: "host \<Rightarrow> string" where
  "detect_shell h =
     (let shell = (case env_SHELL h of None \<Rightarrow> ''/bin/bash'' | Some s \<Rightarrow> s)
      in path_name (path_of_string shell))"

definition select_profile :: "host \<Rightarrow> world \<Rightarrow> string \<Rightarrow> path" where
  "select_profile h w shell_name =
     (if shell_name = ''zsh'' then home h @ [''.zshrc'']
      else if shell_name = ''fish'' then home h @ [''.config'', ''fish'', ''config.fish'']
      else if shell_name = ''bash''
      then (let bash_profile = home h @ [''.bash_profile''];
                bashrc = home h @ [''.bashrc'']
            in if path_exists bash_profile w then bash_profile else bashrc)
      else home h @ [''.profile''])"

definition path_block :: "string \<Rightarrow> string \<Rightarrow> string" where
  "path_block shell_name bin_dir =
     (if shell_name = ''fish''
      then nl @ marker @ nl @ ''set -gx PATH '' @ dq @ bin_dir @ dq @ '' $PATH'' @ nl
             @ ''# End Python-NoAdmin'' @ nl
      else nl @ marker @ nl @ ''export PATH='' @ dq @ bin_dir @ '':$PATH'' @ dq @ nl
             @ ''# End Python-NoAdmin'' @ nl)"

definition configure_path_unix :: "host \<Rightarrow> path \<Rightarrow> world \<Rightarrow> world" where
  "configure_path_unix h install_dir w =
     (let bin_dir = install_dir @ [''bin''];
          shell_name = detect_shell h;
          profile = select_profile h w shell_name;
          w1 = info (''Configuring shell profile: '' @ str_path h profile) w
      in if path_exists profile w1 \<and> py_in marker (read_text profile w1)
         then info ''Shell profile already configured'' w1
         else (let w2 = mkdir_parents (butlast profile) w1;
                   config = path_block shell_name (str_path h bin_dir);
                   w3 = append_text profile config w2
               in warn (''Run '' @ sq @ ''source '' @ str_path h profile @ sq @ '' or restart your terminal'')
                    (success (''Added Python to PATH in '' @ str_path h profile) w3)))"

subsection \<open>Main installation\<close>

definition get_install_dir :: "host \<Rightarrow> path" where
  "get_install_dir h = home h @ [INSTALL_DIR_NAME]"

text \<open>
  \<open>str(e)\<close> for the exceptions the \<open>try\<close> of \<open>install\<close> catches; for a \<open>KeyError\<close>
  it is the \<open>repr\<close> of its message, which holds single quotes.
\<close>

fun exn_message :: "exn \<Rightarrow> string" where
  "exn_message (RuntimeError msg) = msg"
| "exn_message (ValueError msg) = msg"
| "exn_message (KeyError msg) = dq @ msg @ dq"
| "exn_message (TypeError msg) = msg"
| "exn_message (OSError msg) = msg"
| "exn_message (SystemExit code) = []"

text \<open>The body of the \<open>try\<close> block of \<open>install\<close>.\<close>

definition install_steps ::
  "host \<Rightarrow> string \<Rightarrow> path \<Rightarrow> string \<Rightarrow> string \<Rightarrow> world \<Rightarrow> (exn + unit) \<times> world" where
  "install_steps h version install_dir os_name arch w =
     (case (if os_name = ''windows'' then install_windows h version install_dir arch w
            else install_unix h version install_dir os_name arch w) of
        (Inl e, w1) \<Rightarrow> (Inl e, w1)
      | (Inr python_exe, w1) \<Rightarrow>
          (case spawn h [str_path h python_exe, ''--version''] w1 of
             (Inl e, w2) \<Rightarrow> (Inl e, w2)
           | (Inr result, w2) \<Rightarrow>
               if returncode result \<noteq> 0
               then (Inl (RuntimeError ''Python installation failed verification''), w2)
               else
                 (case install_pip h python_exe install_dir
                         (success (''Python installed: '' @ strip (stdout result)) w2) of
                    (Inl e, w3) \<Rightarrow> (Inl e, w3)
                  | (Inr u, w3) \<Rightarrow>
                      (let w4 = (if os_name = ''windows'' then configure_path_windows h install_dir w3
                                 else configure_path_unix h install_dir w3);
                           w5 = print (''  Python: '' @ str_path h python_exe)
                                  (header ''Installation Complete!'' w4);
                           w6 = (if os_name = ''windows''
                                 then print (''  pip: '' @ str_path h (install_dir @ [''Scripts'', ''pip.exe''])) w5
                                 else print (''  pip: '' @ str_path h (install_dir @ [''bin'', ''pip3''])) w5);
                           w7 = print ''  Activate in current session:'' (print [] w6);
                           w8 = (if os_name = ''windows''
                                 then print (''    . .'' @ bs @ ''scripts'' @ bs @ ''activate.ps1'') w7
                                 else print ''    source ./scripts/activate.sh'' w7)
                       in (Inr (), print [] w8)))))"

definition install :: "host \<Rightarrow> string \<Rightarrow> bool \<Rightarrow> world \<Rightarrow> (exn + unit) \<times> world" where
  "install h version force w =
     (case get_platform_info (platform_system h) (platform_machine h) of
        Inl e \<Rightarrow> (Inl e, w)
      | Inr (os_name, arch) \<Rightarrow>
          (let install_dir = get_install_dir h;
               w1 = print []
                      (print (''  Install directory: '' @ str_path h install_dir)
                         (print (''  Platform: '' @ os_name @ '' ('' @ arch @ '')'')
                            (print (''  Version: '' @ version)
                               (header ''Python-NoAdmin Installer'' w))))
           in if path_exists install_dir w1 \<and> \<not> force
              then (let w2 = info ''Use --force to reinstall''
                               (warn (''Python already installed at: '' @ str_path h install_dir) w1);
                        python_exe = (if os_name = ''windows'' then install_dir @ [''python.exe'']
                                      else install_dir @ [''bin'', ''python3''])
                    in if path_exists python_exe w2
                       then (case spawn h [str_path h python_exe, ''--version''] w2 of
                               (Inl e, w3) \<Rightarrow> (Inl e, w3)
                             | (Inr result, w3) \<Rightarrow>
                                 (Inr (),
                                  if returncode result = 0
                                  then info (''Existing version: '' @ strip (stdout result)) w3
                                  else w3))
                       else (Inr (), w2))
              else (case install_steps h version install_dir os_name arch
                           (info (''Installing Python '' @ version @ ''...'') w1) of
                      (Inl (SystemExit code), w2) \<Rightarrow> (Inl (SystemExit code), w2)
                    | (Inl e, w2) \<Rightarrow>
                        (Inl (SystemExit 1), error (''Installation failed: '' @ exn_message e) w2)
                    | (Inr u, w2) \<Rightarrow> (Inr (), w2))))"

definition uninstall :: "host \<Rightarrow> world \<Rightarrow> (exn + unit) \<times> world" where
  "uninstall h w =
     (let install_dir = get_install_dir h in
      case get_platform_info (platform_system h) (platform_machine h) of
        Inl e \<Rightarrow> (Inl e, w)
      | Inr (os_name, arch) \<Rightarrow>
          (let w1 = header ''Python-NoAdmin Uninstaller'' w in
           if \<not> path_exists install_dir w1
           then (Inr (), info (''Nothing to uninstall. Directory not found: ''
                                 @ str_path h install_dir) w1)
           else (let w2 = emit (Input ''Continue? [y/N] '')
                            (print (''This will remove: '' @ str_path h install_dir) w1);
                     response = lower (strip (stdin h))
                 in if response \<notin> set [''y'', ''yes'']
                    then (Inr (), info ''Uninstallation cancelled'' w2)
                    else (let w3 = success (''Removed: '' @ str_path h install_dir)
                                     (rmtree install_dir (info ''Removing installation...'' w2));
                              w4 = (if os_name = ''windows''
                                    then info ''  System Properties > Environment Variables > User variables > PATH''
                                           (info ''Note: You may want to remove Python-NoAdmin entries from your user PATH'' w3)
                                    else info ''  (e.g., ~/.bashrc, ~/.zshrc)''
                                           (info ''Note: Remove Python-NoAdmin lines from your shell profile'' w3))
                          in (Inr (), success ''Uninstallation complete'' w4)))))"

definition bullet :: string where
  "bullet = [CHR 0xE2, CHR 0x80, CHR 0xA2]"

definition list_versions :: "world \<Rightarrow> world" where
  "list_versions w =
     (let w1 = print [] (print ''Available Python versions:'' (print [] w));
          w2 = print_all
                 (map (\<lambda>v. ''  '' @ bullet @ '' '' @ v
                              @ (if v = DEFAULT_VERSION then '' (default)'' else []))
                    AVAILABLE_VERSIONS) w1
      in print [] (print ''Note: Other versions may work but are not tested.'' (print [] w2)))"

subsection \<open>Entry point\<close>

record args =
  arg_version :: string
  arg_force :: bool
  arg_list_versions :: bool
  arg_uninstall :: bool

definition main :: "host \<Rightarrow> args \<Rightarrow> world \<Rightarrow> (exn + unit) \<times> world" where
  "main h a w =
     (if arg_list_versions a then (Inr (), list_versions w)
      else if arg_uninstall a then uninstall h w
      else install h (arg_version a) (arg_force a) w)"


subsection \<open>Reference definitions and concrete hosts\<close>

text \<open>
  What the extraction with \<open>strip_components = n\<close> is said to do, in the words of the
  specification: the members with more than \<open>n\<close> segments, each with its first \<open>n\<close>
  segments dropped. The loop \<open>extract_stripped\<close> is compared with it.
\<close>

definition stripped_members :: "nat \<Rightarrow> member list \<Rightarrow> member list" where
  "stripped_members n ms =
     map (\<lambda>m. m\<lparr>m_name := join ''/'' (drop n (split_on CHR ''/'' (m_name m)))\<rparr>)
       (filter (\<lambda>m. n < length (split_on CHR ''/'' (m_name m))) ms)"

text \<open>A Linux host and a world with a home directory, on which the properties are run.\<close>

definition linux_host :: host where
  "linux_host =
     \<lparr>platform_system = ''Linux'', platform_machine = ''x86_64'', anchor = ''/'', sep = ''/'',
      home = [''home'', ''u''], env_SHELL = Some ''/bin/bash'', tmpdir = [''tmp'', ''t''],
      urlopen = (\<lambda>url. Body ''tarball''),
      run = (\<lambda>n args. Inr \<lparr>returncode = 0, stdout = ''Python 3.12.8'', stderr = []\<rparr>),
      stdin = ''y'',
      zip_members = (\<lambda>data. []),
      tar_members = (\<lambda>data. [\<lparr>m_name = ''python'', m_entry = EDir\<rparr>,
                               \<lparr>m_name = ''python/bin/python3'', m_entry = EFile ''ELF''\<rparr>])\<rparr>"

definition home_world :: world where
  "home_world =
     \<lparr>dirs = (\<lambda>p. p \<in> set [[], [''home''], [''home'', ''u''], [''tmp'']]),
      files = [[''tmp'', ''python.tar.gz''] \<mapsto> ''tarball''],
      symlinks = Map.empty,
      registry = Denied ''no registry'',
      events = []\<rparr>"

text \<open>A Windows host, and a world whose install directory holds a \<open>._pth\<close> file.\<close>

definition windows_host :: host where
  "windows_host =
     \<lparr>platform_system = ''Windows'', platform_machine = ''AMD64'', anchor = ''C:'' @ bs, sep = bs,
      home = [''Users'', ''u''], env_SHELL = None, tmpdir = [''Temp'', ''t''],
      urlopen = (\<lambda>url. Body ''zip''),
      run = (\<lambda>n args. Inr \<lparr>returncode = 0, stdout = ''Python 3.12.8'', stderr = []\<rparr>),
      stdin = ''y'',
      zip_members = (\<lambda>data. [(''python.exe'', ''MZ''),
                               (''python312._pth'',
                                ''python312.zip'' @ nl @ ''.'' @ nl @ nl
                                  @ ''# Uncomment to run site.main() automatically'' @ nl
                                  @ ''#import site'' @ nl)]),
      tar_members = (\<lambda>data. [])\<rparr>"

definition windows_world :: world where
  "windows_world =
     \<lparr>dirs = (\<lambda>p. p \<in> set [[], [''Users''], [''Users'', ''u''], [''Temp'']]),
      files = Map.empty,
      symlinks = Map.empty,
      registry = Opened [''PATH'' \<mapsto> ''C:'' @ bs @ ''Windows;C:'' @ bs @ ''Tools''],
      events = []\<rparr>"

definition embed_pth :: string where
  "embed_pth = ''python312.zip'' @ nl @ ''.'' @ nl @ nl
                 @ ''# Uncomment to run site.main() automatically'' @ nl @ ''#import site'' @ nl"

definition pth_world :: "string \<Rightarrow> world" where
  "pth_world content =
     windows_world\<lparr>files := [[''Users'', ''u'', ''.python-nonadmin'', ''python312._pth''] \<mapsto> content]\<rparr>"



text \<open>
  A tarball of the layout of the upstream archives with a hard link in it: the
  interpreter under its versioned name, and \<open>python3\<close> as a hard link to it.
\<close>

definition hardlink_host :: host where
  "hardlink_host = linux_host\<lparr>tar_members :=
     (\<lambda>data. [\<lparr>m_name = ''python/bin/python3.12'', m_entry = EFile ''ELF''\<rparr>,
              \<lparr>m_name = ''python/bin/python3'', m_entry = EHardlink ''python/bin/python3.12''\<rparr>,
              \<lparr>m_name = ''python/lib/os.py'', m_entry = EFile ''import abc''\<rparr>])\<rparr>"



section \<open>Properties\<close>

subsection \<open>Substring search\<close>

lemma py_find_Some_iff: "py_find sub s \<noteq> None \<longleftrightarrow> (\<exists>p q. s = p @ sub @ q)"
proof (induction s)
  case Nil
  then show ?case by auto
next
  case (Cons c cs)
  show ?case
  proof (cases "prefix sub (c # cs)")
    case True
    then obtain q where "c # cs = sub @ q" by (auto simp: prefix_def)
    then have "c # cs = [] @ sub @ q" by simp
    with True show ?thesis by (metis py_find.simps(2) option.distinct(1))
  next
    case False
    have "(\<exists>p q. c # cs = p @ sub @ q) \<longleftrightarrow> (\<exists>p q. cs = p @ sub @ q)"
    proof
      assume "\<exists>p q. c # cs = p @ sub @ q"
      then obtain p q where pq: "c # cs = p @ sub @ q" by blast
      show "\<exists>p q. cs = p @ sub @ q"
      proof (cases p)
        case Nil
        with pq have "prefix sub (c # cs)" by (simp add: prefix_def)
        with False show ?thesis by simp
      next
        case (Cons a p')
        with pq have "cs = p' @ sub @ q" by simp
        then show ?thesis by blast
      qed
    next
      assume "\<exists>p q. cs = p @ sub @ q"
      then obtain p q where "cs = p @ sub @ q" by blast
      then have "c # cs = (c # p) @ sub @ q" by simp
      then show "\<exists>p q. c # cs = p @ sub @ q" by blast
    qed
    moreover have "py_find sub (c # cs) \<noteq> None \<longleftrightarrow> py_find sub cs \<noteq> None"
      using False by simp
    ultimately show ?thesis using Cons.IH by blast
  qed
qed

lemma py_in_iff: "py_in sub s \<longleftrightarrow> (\<exists>p q. s = p @ sub @ q)"
  unfolding py_in_def by (rule py_find_Some_iff)

subsection \<open>Platform detection\<close>

lemma lower_known: "k \<in> set (map fst os_names @ map fst arch_names) \<Longrightarrow> lower k = k"
  by (auto simp: os_names_def arch_names_def lower_def lower_char_def)

text \<open>
  Claim C2. With \<open>system\<close> and \<open>machine\<close> the lower-cased host identifiers, as in the
  source: when both are in the known enumeration (darwin, windows, linux and x86_64,
  amd64, aarch64, arm64, i386, i686), \<open>get_platform_info\<close> returns the canonical pair
  of the tables, whose first component is one of windows, macos, linux and whose second
  is one of x86_64, aarch64, x86. When \<open>system\<close> is outside the enumeration it fails
  with the unsupported-operating-system error, and when only \<open>machine\<close> is outside with
  the unsupported-architecture error. The identifiers of the enumeration are their own
  lower-case form, so the first part applies to them as they are written.
\<close>

theorem get_platform_info_enumeration:
  "(map_of os_names (lower s) = Some os_name \<and> map_of arch_names (lower m) = Some arch \<longrightarrow>
      get_platform_info s m = Inr (os_name, arch)
      \<and> os_name \<in> {''windows'', ''macos'', ''linux''}
      \<and> arch \<in> {''x86_64'', ''aarch64'', ''x86''})
   \<and> (map_of os_names (lower s) = None \<longrightarrow>
      get_platform_info s m = Inl (RuntimeError (''Unsupported operating system: '' @ lower s)))
   \<and> (map_of os_names (lower s) \<noteq> None \<and> map_of arch_names (lower m) = None \<longrightarrow>
      get_platform_info s m = Inl (RuntimeError (''Unsupported architecture: '' @ lower m)))
   \<and> (\<forall>k \<in> set (map fst os_names @ map fst arch_names). lower k = k)"
proof -
  have A: "map_of os_names (lower s) = Some os_name \<and> map_of arch_names (lower m) = Some arch \<longrightarrow>
      get_platform_info s m = Inr (os_name, arch)
      \<and> os_name \<in> {''windows'', ''macos'', ''linux''}
      \<and> arch \<in> {''x86_64'', ''aarch64'', ''x86''}"
    unfolding get_platform_info_def os_names_def arch_names_def Let_def
    by (auto split: if_splits)
  have B: "map_of os_names (lower s) = None \<longrightarrow>
      get_platform_info s m = Inl (RuntimeError (''Unsupported operating system: '' @ lower s))"
    unfolding get_platform_info_def os_names_def Let_def
    by (auto split: if_splits)
  have C: "map_of os_names (lower s) \<noteq> None \<and> map_of arch_names (lower m) = None \<longrightarrow>
      get_platform_info s m = Inl (RuntimeError (''Unsupported architecture: '' @ lower m))"
    unfolding get_platform_info_def os_names_def arch_names_def Let_def
    by (auto split: if_splits)
  from A B C lower_known show ?thesis by blast
qed

theorem get_platform_info_enumeration_witness:
  "get_platform_info ''Darwin'' ''arm64'' = Inr (''macos'', ''aarch64'')
   \<and> get_platform_info ''linux'' ''i686'' = Inr (''linux'', ''x86'')
   \<and> get_platform_info ''FreeBSD'' ''amd64'' = Inl (RuntimeError ''Unsupported operating system: freebsd'')
   \<and> get_platform_info ''Linux'' ''sparc'' = Inl (RuntimeError ''Unsupported architecture: sparc'')"
  using get_platform_info_enumeration [of "''Darwin''" "''macos''" "''arm64''" "''aarch64''"]
        get_platform_info_enumeration [of "''linux''" "''linux''" "''i686''" "''x86''"]
        get_platform_info_enumeration [of "''FreeBSD''" _ "''amd64''"]
        get_platform_info_enumeration [of "''Linux''" _ "''sparc''"]
  by (simp add: os_names_def arch_names_def lower_def lower_char_def)

subsection \<open>Download URLs\<close>

text \<open>
  Claim C3. The two resolvers are functions of their arguments and the module constants
  alone, and their results are the templates: for every version and architecture the
  python-build-standalone URL on linux and on macos, and the python.org embeddable
  package URL for each of the three Windows architectures. For version 3.11.9 on
  (linux, x86_64) the URL contains
  cpython-3.11.9+20241206-x86_64-unknown-linux-gnu-install_only.tar.gz.
\<close>

theorem url_resolvers_match_templates:
  "get_pbs_download_url version ''linux'' arch =
     Inr (''https://github.com/indygreg/python-build-standalone/releases/download/20241206/cpython-''
            @ version @ ''+20241206-'' @ arch @ ''-unknown-linux-gnu-install_only.tar.gz'')
   \<and> get_pbs_download_url version ''macos'' arch =
     Inr (''https://github.com/indygreg/python-build-standalone/releases/download/20241206/cpython-''
            @ version @ ''+20241206-'' @ arch @ ''-apple-darwin-install_only.tar.gz'')
   \<and> get_windows_embed_url version ''x86_64'' =
     Inr (''https://www.python.org/ftp/python/'' @ version @ ''/python-'' @ version @ ''-embed-amd64.zip'')
   \<and> get_windows_embed_url version ''x86'' =
     Inr (''https://www.python.org/ftp/python/'' @ version @ ''/python-'' @ version @ ''-embed-win32.zip'')
   \<and> get_windows_embed_url version ''aarch64'' =
     Inr (''https://www.python.org/ftp/python/'' @ version @ ''/python-'' @ version @ ''-embed-arm64.zip'')
   \<and> (\<exists>url. get_pbs_download_url ''3.11.9'' ''linux'' ''x86_64'' = Inr url
          \<and> py_in ''cpython-3.11.9+20241206-x86_64-unknown-linux-gnu-install_only.tar.gz'' url)"
proof -
  have golden: "py_in ''cpython-3.11.9+20241206-x86_64-unknown-linux-gnu-install_only.tar.gz''
     (''https://github.com/indygreg/python-build-standalone/releases/download/20241206/''
        @ ''cpython-3.11.9+20241206-x86_64-unknown-linux-gnu-install_only.tar.gz'' @ [])"
    unfolding py_in_iff by blast
  show ?thesis
    using golden
    by (simp add: get_pbs_download_url_def get_windows_embed_url_def PBS_RELEASE_TAG_def
          PBS_BASE_URL_def PYTHON_ORG_BASE_def)
qed

theorem url_resolvers_match_templates_witness:
  "get_pbs_download_url ''3.11.9'' ''linux'' ''x86_64'' =
     Inr ''https://github.com/indygreg/python-build-standalone/releases/download/20241206/cpython-3.11.9+20241206-x86_64-unknown-linux-gnu-install_only.tar.gz''
   \<and> get_pbs_download_url ''3.12.8'' ''macos'' ''aarch64'' =
     Inr ''https://github.com/indygreg/python-build-standalone/releases/download/20241206/cpython-3.12.8+20241206-aarch64-apple-darwin-install_only.tar.gz''
   \<and> get_windows_embed_url ''3.12.8'' ''x86_64'' =
     Inr ''https://www.python.org/ftp/python/3.12.8/python-3.12.8-embed-amd64.zip''"
  using url_resolvers_match_templates [of "''3.11.9''" "''x86_64''"]
        url_resolvers_match_templates [of "''3.12.8''" "''aarch64''"]
  by simp

text \<open>
  What the two resolvers check: \<open>get_pbs_download_url\<close> raises exactly when \<open>os_name\<close>
  is neither macos nor linux, \<open>get_windows_embed_url\<close> exactly when \<open>arch\<close> is none
  of x86_64, x86 and aarch64.
\<close>

lemma url_resolvers_failure:
  "(os_name \<notin> {''macos'', ''linux''} \<longrightarrow>
      get_pbs_download_url version os_name arch = Inl (ValueError (''PBS not available for '' @ os_name)))
   \<and> (os_name \<in> {''macos'', ''linux''} \<longrightarrow>
      (\<exists>url. get_pbs_download_url version os_name arch = Inr url))
   \<and> (arch \<notin> {''x86_64'', ''x86'', ''aarch64''} \<longrightarrow>
      get_windows_embed_url version arch = Inl (ValueError (''Unknown Windows architecture: '' @ arch)))
   \<and> (arch \<in> {''x86_64'', ''x86'', ''aarch64''} \<longrightarrow>
      (\<exists>url. get_windows_embed_url version arch = Inr url))"
  by (auto simp: get_pbs_download_url_def get_windows_embed_url_def)

text \<open>
  Claim C4. A resolver fails with a descriptive error on every combination of
  operating system and architecture that its branch does not know. The source
  diverges: \<open>get_pbs_download_url\<close> never looks at \<open>arch\<close>. On a 32-bit Linux host
  (machine i686) \<open>get_platform_info\<close> returns the pair (linux, x86), and for that pair
  the resolver returns a URL, built on the target name x86-unknown-linux-gnu, instead
  of raising; it does the same for an architecture that no part of the installer
  knows, where \<open>get_windows_embed_url\<close> raises.
\<close>

theorem get_pbs_download_url_unchecked_arch:
  "get_platform_info ''Linux'' ''i686'' = Inr (''linux'', ''x86'')
   \<and> get_pbs_download_url ''3.12.8'' ''linux'' ''x86'' =
     Inr ''https://github.com/indygreg/python-build-standalone/releases/download/20241206/cpython-3.12.8+20241206-x86-unknown-linux-gnu-install_only.tar.gz''
   \<and> get_pbs_download_url ''3.12.8'' ''linux'' ''sparc'' =
     Inr ''https://github.com/indygreg/python-build-standalone/releases/download/20241206/cpython-3.12.8+20241206-sparc-unknown-linux-gnu-install_only.tar.gz''
   \<and> get_pbs_download_url ''3.12.8'' ''macos'' ''x86'' =
     Inr ''https://github.com/indygreg/python-build-standalone/releases/download/20241206/cpython-3.12.8+20241206-x86-apple-darwin-install_only.tar.gz''
   \<and> get_windows_embed_url ''3.12.8'' ''sparc'' = Inl (ValueError ''Unknown Windows architecture: sparc'')"
  by (simp add: get_platform_info_def lower_def lower_char_def Let_def
        get_pbs_download_url_def get_windows_embed_url_def PBS_RELEASE_TAG_def
        PBS_BASE_URL_def PYTHON_ORG_BASE_def)

subsection \<open>Archive extraction\<close>

lemma path_suffix_is_suffix: "suffix (path_suffix p) (path_name p)"
  by (auto simp: path_suffix_def Let_def suffix_drop split: option.splits)

lemma path_suffix_zip: "path_suffix p = ''.zip'' \<Longrightarrow> endswith (path_name p) ''.zip''"
  using path_suffix_is_suffix [of p] by (simp add: endswith_def)

lemma suffix_last: "suffix a s \<Longrightarrow> a \<noteq> [] \<Longrightarrow> last s = last a"
  by (auto simp: suffix_def)

lemma tarball_not_zip:
  assumes "endswith s ''.tar.gz'' \<or> endswith s ''.tgz''"
  shows "\<not> endswith s ''.zip''"
proof
  assume "endswith s ''.zip''"
  then have "last s = CHR ''p''" using suffix_last [of "''.zip''" s] by (simp add: endswith_def)
  moreover from assms have "last s = CHR ''z''"
    using suffix_last [of "''.tar.gz''" s] suffix_last [of "''.tgz''" s]
    by (auto simp: endswith_def)
  ultimately show False by simp
qed

lemma strict_prefix_not_prefix: "strict_prefix p q \<Longrightarrow> \<not> prefix q p"
  by (auto simp: strict_prefix_def)

lemma tar_extract_no_hard_link:
  assumes "\<forall>l. m_entry m \<noteq> EHardlink l"
  shows "\<exists>w1. \<forall>prior. tar_extract prior m dest w = (Inr (), w1)"
  using assms by (cases "m_entry m") (simp_all add: tar_extract_def Let_def)

lemma tar_extractall_prior:
  assumes "\<forall>m \<in> set ms. \<forall>l. m_entry m \<noteq> EHardlink l"
  shows "tar_extractall prior ms dest w = tar_extractall [] ms dest w
     \<and> fst (tar_extractall prior ms dest w) = Inr ()"
  using assms
proof (induction ms arbitrary: prior w)
  case Nil
  then show ?case by simp
next
  case (Cons m ms)
  from Cons.prems have m: "\<forall>l. m_entry m \<noteq> EHardlink l"
    and ms: "\<forall>m \<in> set ms. \<forall>l. m_entry m \<noteq> EHardlink l"
    by simp_all
  from tar_extract_no_hard_link [OF m, of dest w]
  obtain w1 where w1: "\<And>prior. tar_extract prior m dest w = (Inr (), w1)" by blast
  show ?case
    using Cons.IH [OF ms, of "prior @ [m]" w1] Cons.IH [OF ms, of "[m]" w1]
    by (auto simp: w1)
qed

lemma extract_stripped_eq:
  assumes "0 < k" and "\<forall>m \<in> set ms. \<forall>l. m_entry m \<noteq> EHardlink l"
  shows "extract_stripped prior ms k dest w = tar_extractall [] (stripped_members (nat k) ms) dest w"
  using assms(2)
proof (induction ms arbitrary: prior w)
  case Nil
  then show ?case by (simp add: stripped_members_def)
next
  case (Cons m ms)
  let ?r = "m\<lparr>m_name := join ''/'' (drop (nat k) (split_on CHR ''/'' (m_name m)))\<rparr>"
  from Cons.prems have r: "\<forall>l. m_entry ?r \<noteq> EHardlink l"
    and ms: "\<forall>m \<in> set ms. \<forall>l. m_entry m \<noteq> EHardlink l"
    by simp_all
  have rest: "\<forall>m \<in> set (stripped_members (nat k) ms). \<forall>l. m_entry m \<noteq> EHardlink l"
    using ms by (auto simp: stripped_members_def)
  have seg: "int (length (split_on CHR ''/'' (m_name m))) > k
               \<longleftrightarrow> nat k < length (split_on CHR ''/'' (m_name m))"
    using assms(1) by linarith
  show ?case
  proof (cases "nat k < length (split_on CHR ''/'' (m_name m))")
    case True
    then have s: "stripped_members (nat k) (m # ms) = ?r # stripped_members (nat k) ms"
      by (simp add: stripped_members_def)
    from tar_extract_no_hard_link [OF r, of dest w]
    obtain w1 where w1: "\<And>prior. tar_extract prior ?r dest w = (Inr (), w1)" by blast
    have "extract_stripped prior (m # ms) k dest w = extract_stripped (prior @ [?r]) ms k dest w1"
      using True seg by (simp add: Let_def w1)
    also have "\<dots> = tar_extractall [] (stripped_members (nat k) ms) dest w1"
      by (rule Cons.IH [OF ms])
    also have "\<dots> = tar_extractall [?r] (stripped_members (nat k) ms) dest w1"
      using tar_extractall_prior [OF rest, of "[?r]" dest w1] by simp
    also have "\<dots> = tar_extractall [] (stripped_members (nat k) (m # ms)) dest w"
      by (simp add: s w1)
    finally show ?thesis .
  next
    case False
    then have s: "stripped_members (nat k) (m # ms) = stripped_members (nat k) ms"
      by (simp add: stripped_members_def)
    show ?thesis using False seg Cons.IH [OF ms, of "prior @ [m]"] by (simp add: s Let_def)
  qed
qed

lemma extract_stripped_all_short:
  assumes "\<forall>m \<in> set ms. int (length (split_on CHR ''/'' (m_name m))) \<le> k"
  shows "extract_stripped prior ms k dest w = (Inr (), w)"
  using assms by (induction ms arbitrary: prior) (simp_all add: Let_def)

text \<open>
  On a tarball without hard links the loop of \<open>strip_components = N > 0\<close> is the
  extraction of \<open>stripped_members N\<close>, and it returns; when every member has at most
  \<open>N\<close> segments nothing is extracted, the destination is made and left empty.
\<close>

lemma extract_archive_strip_without_hard_links:
  assumes tarball:
      "endswith (path_name archive) ''.tar.gz'' \<or> endswith (path_name archive) ''.tgz''"
    and strip: "0 < strip_components"
  shows "((\<forall>m \<in> set (tar_members h (read_text archive w)). \<forall>l. m_entry m \<noteq> EHardlink l) \<longrightarrow>
           extract_archive h archive dest strip_components w =
             (Inr (), success ''Extraction complete''
                (snd (tar_extractall []
                        (stripped_members (nat strip_components) (tar_members h (read_text archive w)))
                        dest (mkdir_parents dest (info (''Extracting to: '' @ str_path h dest) w))))))
     \<and> ((\<forall>m \<in> set (tar_members h (read_text archive w)).
            int (length (split_on CHR ''/'' (m_name m))) \<le> strip_components) \<longrightarrow>
         (\<exists>w'. extract_archive h archive dest strip_components w = (Inr (), w')
            \<and> files w' = files w \<and> symlinks w' = symlinks w
            \<and> (\<forall>q. dirs w' q \<longleftrightarrow> prefix q dest \<or> dirs w q)
            \<and> events w' = events w @ [Say INFO (''Extracting to: '' @ str_path h dest),
                                       MkdirParents dest, Say SUCCESS ''Extraction complete'']
            \<and> ((\<forall>q. strict_prefix dest q \<longrightarrow> \<not> path_exists q w) \<longrightarrow>
                 dirs w' dest \<and> (\<forall>q. strict_prefix dest q \<longrightarrow> \<not> path_exists q w'))))"
proof -
  define w1 where "w1 = mkdir_parents dest (info (''Extracting to: '' @ str_path h dest) w)"
  define ms where "ms = tar_members h (read_text archive w)"
  have nozip: "path_suffix archive \<noteq> ''.zip''" "\<not> endswith (path_name archive) ''.zip''"
    using tarball tarball_not_zip path_suffix_zip by blast+
  have rd: "read_text archive w1 = read_text archive w"
    by (simp add: w1_def read_text_def mkdir_parents_def info_def emit_def)
  have run: "extract_archive h archive dest strip_components w =
               (case extract_stripped [] ms strip_components dest w1 of
                  (Inl e, w3) \<Rightarrow> (Inl e, w3)
                | (Inr u, w3) \<Rightarrow> (Inr (), success ''Extraction complete'' w3))"
    using tarball nozip strip rd
    by (simp add: extract_archive_def Let_def w1_def ms_def)
  have part1: "extract_archive h archive dest strip_components w =
             (Inr (), success ''Extraction complete''
                (snd (tar_extractall [] (stripped_members (nat strip_components) ms) dest w1)))"
    if nl: "\<forall>m \<in> set ms. \<forall>l. m_entry m \<noteq> EHardlink l"
  proof -
    have "\<forall>m \<in> set (stripped_members (nat strip_components) ms). \<forall>l. m_entry m \<noteq> EHardlink l"
      using nl by (auto simp: stripped_members_def)
    from tar_extractall_prior [OF this, of "[]" dest w1, THEN conjunct2]
    obtain w3 where "tar_extractall [] (stripped_members (nat strip_components) ms) dest w1 = (Inr (), w3)"
      by (cases "tar_extractall [] (stripped_members (nat strip_components) ms) dest w1") auto
    then show ?thesis unfolding run extract_stripped_eq [OF strip nl] by simp
  qed
  have part2: "\<exists>w'. extract_archive h archive dest strip_components w = (Inr (), w')
            \<and> files w' = files w \<and> symlinks w' = symlinks w
            \<and> (\<forall>q. dirs w' q \<longleftrightarrow> prefix q dest \<or> dirs w q)
            \<and> events w' = events w @ [Say INFO (''Extracting to: '' @ str_path h dest),
                                       MkdirParents dest, Say SUCCESS ''Extraction complete'']
            \<and> ((\<forall>q. strict_prefix dest q \<longrightarrow> \<not> path_exists q w) \<longrightarrow>
                 dirs w' dest \<and> (\<forall>q. strict_prefix dest q \<longrightarrow> \<not> path_exists q w'))"
    if all: "\<forall>m \<in> set ms. int (length (split_on CHR ''/'' (m_name m))) \<le> strip_components"
  proof -
    have eq: "extract_archive h archive dest strip_components w =
        (Inr (), success ''Extraction complete'' w1)"
      unfolding run extract_stripped_all_short [OF all] by simp
    show ?thesis unfolding eq
      by (auto simp: w1_def success_def info_def emit_def mkdir_parents_def path_exists_def
            strict_prefix_not_prefix)
  qed
  from part1 part2 show ?thesis unfolding w1_def ms_def by blast
qed


lemma tarball_name: "endswith (path_name [''tmp'', ''python.tar.gz'']) ''.tar.gz''" "\<not> endswith (path_name [''tmp'', ''python.tar.gz'']) ''.zip''"
      "path_suffix [''tmp'', ''python.tar.gz''] \<noteq> ''.zip''"
    by (simp_all add: endswith_def path_name_def suffix_to_prefix path_suffix_def Let_def)

lemma normpath_examples: "normpath ''bin/python3.12'' = ''bin/python3.12''"
      "normpath ''python/bin/python3.12'' = ''python/bin/python3.12''"
    by (simp_all add: normpath_def initial_slashes_def Let_def)

lemma tar_target_examples: "tar_target [''home'', ''u'', ''.python-nonadmin''] ''bin/python3.12'' = [''home'', ''u'', ''.python-nonadmin'', ''bin'', ''python3.12'']"
  "tar_target [''home'', ''u'', ''.python-nonadmin''] ''python/bin/python3.12'' = [''home'', ''u'', ''.python-nonadmin'', ''python'', ''bin'', ''python3.12'']"
  by (simp_all add: tar_target_def)

text \<open>
  Claim C1. With \<open>strip_components = N > 0\<close> every member of the tarball with more
  than \<open>N\<close> segments is extracted under its path without the first \<open>N\<close> segments, and
  the others are skipped without an error. The source diverges on a tarball with a
  hard link: the loop renames \<open>member.name\<close> and leaves \<open>linkname\<close> as it is, so
  \<open>tf.extract\<close> looks for the target of the link under a name that no member has any
  more and that nothing was extracted to. On the tarball with the file
  python/bin/python3.12, the hard link python/bin/python3 to it and the file
  python/lib/os.py, and \<open>strip_components = 1\<close>, the call raises \<open>KeyError\<close> at the
  link: bin/python3.12 is extracted, bin/python3 and lib/os.py are not, although all
  three paths have more than one segment. Extracted whole, the same tarball raises
  nothing and the link holds the content of its target.
\<close>

theorem extract_archive_hard_link:
  "fst (extract_archive hardlink_host [''tmp'', ''python.tar.gz''] [''home'', ''u'', ''.python-nonadmin''] 1 home_world)
     = Inl (KeyError (''linkname '' @ sq @ ''python/bin/python3.12'' @ sq @ '' not found''))
   \<and> map m_name (stripped_members 1 (tar_members hardlink_host ''tarball''))
       = [''bin/python3.12'', ''bin/python3'', ''lib/os.py'']
   \<and> files (snd (extract_archive hardlink_host [''tmp'', ''python.tar.gz''] [''home'', ''u'', ''.python-nonadmin''] 1 home_world))
        [''home'', ''u'', ''.python-nonadmin'', ''bin'', ''python3.12''] = Some ''ELF''
   \<and> files (snd (extract_archive hardlink_host [''tmp'', ''python.tar.gz''] [''home'', ''u'', ''.python-nonadmin''] 1 home_world))
        [''home'', ''u'', ''.python-nonadmin'', ''bin'', ''python3''] = None
   \<and> files (snd (extract_archive hardlink_host [''tmp'', ''python.tar.gz''] [''home'', ''u'', ''.python-nonadmin''] 1 home_world))
        [''home'', ''u'', ''.python-nonadmin'', ''lib'', ''os.py''] = None
   \<and> fst (extract_archive hardlink_host [''tmp'', ''python.tar.gz''] [''home'', ''u'', ''.python-nonadmin''] 0 home_world)
       = Inr ()
   \<and> files (snd (extract_archive hardlink_host [''tmp'', ''python.tar.gz''] [''home'', ''u'', ''.python-nonadmin''] 0 home_world))
        [''home'', ''u'', ''.python-nonadmin'', ''python'', ''bin'', ''python3''] = Some ''ELF''"
proof -
  let ?A = "[''tmp'', ''python.tar.gz'']" and ?D = "[''home'', ''u'', ''.python-nonadmin'']"
  let ?r1 = "\<lparr>m_name = ''bin/python3.12'', m_entry = EFile ''ELF''\<rparr>"
  let ?r2 = "\<lparr>m_name = ''bin/python3'', m_entry = EHardlink ''python/bin/python3.12''\<rparr>"
  let ?T1 = "[''home'', ''u'', ''.python-nonadmin'', ''bin'', ''python3.12'']"
  let ?T2 = "[''home'', ''u'', ''.python-nonadmin'', ''bin'', ''python3'']"
  let ?LT = "[''home'', ''u'', ''.python-nonadmin'', ''python'', ''bin'', ''python3.12'']"
  define w2 where "w2 = mkdir_parents ?D (info (''Extracting to: '' @ str_path hardlink_host ?D) home_world)"
  define w3 where "w3 = emit (Extracted ''bin/python3.12'' ?D) (make_upperdirs ?T1 w2)\<lparr>files :=
      (files (emit (Extracted ''bin/python3.12'' ?D) (make_upperdirs ?T1 w2)))(?T1 \<mapsto> ''ELF'')\<rparr>"
  define w4 where "w4 = emit (Extracted ''bin/python3'' ?D) (make_upperdirs ?T2 w3)"
  have ms: "tar_members hardlink_host x =
      [\<lparr>m_name = ''python/bin/python3.12'', m_entry = EFile ''ELF''\<rparr>,
       \<lparr>m_name = ''python/bin/python3'', m_entry = EHardlink ''python/bin/python3.12''\<rparr>,
       \<lparr>m_name = ''python/lib/os.py'', m_entry = EFile ''import abc''\<rparr>]" for x
    by (simp add: hardlink_host_def)
  have tt2: "tar_target ?D ''bin/python3'' = ?T2" by (simp add: tar_target_def)
  have s1: "tar_extract [] ?r1 ?D w2 = (Inr (), w3)"
    by (simp add: tar_extract_def Let_def tar_target_examples w3_def)
  have f2: "files w2 = files home_world" "dirs w2 = (\<lambda>q. prefix q ?D \<or> dirs home_world q)"
    by (simp_all add: w2_def mkdir_parents_def info_def emit_def)
  have f3: "files w3 = (files home_world)(?T1 \<mapsto> ''ELF'')"
    by (simp add: w3_def emit_def make_upperdirs_def f2)
  have f4: "files w4 = files w3" "dirs w4 = (\<lambda>q. strict_prefix q ?T2 \<or> dirs w3 q)"
    by (simp_all add: w4_def emit_def make_upperdirs_def)
  have d3: "dirs w3 = (\<lambda>q. strict_prefix q ?T1 \<or> dirs w2 q)"
    by (simp add: w3_def emit_def make_upperdirs_def)
  have nolt: "files w4 ?LT = None" "\<not> dirs w4 ?LT"
    by (simp_all add: f4 f3 d3 f2 home_world_def)
  have nf: "find_link_target [?r1] ''python/bin/python3.12'' = None"
    by (simp add: find_link_target_def normpath_examples)
  have s2: "tar_extract [?r1] ?r2 ?D w3
      = (Inl (KeyError (''linkname '' @ sq @ ''python/bin/python3.12'' @ sq @ '' not found'')), w4)"
    using nolt nf by (simp add: tar_extract_def Let_def tar_target_examples tt2 w4_def [symmetric])
  have loop: "extract_stripped [] (tar_members hardlink_host x) 1 ?D w2
      = (Inl (KeyError (''linkname '' @ sq @ ''python/bin/python3.12'' @ sq @ '' not found'')), w4)" for x
    by (simp add: ms Let_def s1 s2)
  have rd: "read_text ?A w2 = ''tarball''"
    by (simp add: read_text_def f2 home_world_def)
  have all: "extract_archive hardlink_host ?A ?D 1 home_world
      = (Inl (KeyError (''linkname '' @ sq @ ''python/bin/python3.12'' @ sq @ '' not found'')), w4)"
    unfolding extract_archive_def Let_def w2_def [symmetric]
    using tarball_name by (simp add: loop)
  have sm: "map m_name (stripped_members 1 (tar_members hardlink_host ''tarball''))
       = [''bin/python3.12'', ''bin/python3'', ''lib/os.py'']"
    by (simp add: ms stripped_members_def)
  have fs: "files w4 ?T1 = Some ''ELF''" "files w4 ?T2 = None"
      "files w4 [''home'', ''u'', ''.python-nonadmin'', ''lib'', ''os.py''] = None"
    by (simp_all add: f4 f3 home_world_def)
  have whole: "fst (extract_archive hardlink_host ?A ?D 0 home_world) = Inr ()
      \<and> files (snd (extract_archive hardlink_host ?A ?D 0 home_world))
          [''home'', ''u'', ''.python-nonadmin'', ''python'', ''bin'', ''python3''] = Some ''ELF''"
    unfolding extract_archive_def Let_def w2_def [symmetric]
    using tarball_name
    by (simp add: ms tar_extract_def Let_def tar_target_def emit_def make_upperdirs_def
          success_def)
  from all sm fs whole show ?thesis by simp
qed

text \<open>
  Claim C8. When the name of the archive ends in none of .zip, .tar.gz and .tgz,
  \<open>extract_archive\<close> fails with the error that names the unknown format. The destination
  was created before the dispatch, so it is a directory after the failed call, together
  with its parents; no file was written and nothing was extracted.
\<close>

theorem extract_archive_unknown_format:
  assumes "\<not> endswith (path_name archive) ''.zip''"
    and "\<not> endswith (path_name archive) ''.tar.gz''"
    and "\<not> endswith (path_name archive) ''.tgz''"
  shows "\<exists>w'. extract_archive h archive dest strip_components w =
                (Inl (ValueError (''Unknown archive format: '' @ path_name archive)), w')
           \<and> dirs w' dest
           \<and> (\<forall>q. dirs w' q \<longleftrightarrow> prefix q dest \<or> dirs w q)
           \<and> files w' = files w
           \<and> registry w' = registry w
           \<and> events w' = events w @ [Say INFO (''Extracting to: '' @ str_path h dest),
                                      MkdirParents dest]"
proof -
  have "path_suffix archive \<noteq> ''.zip''"
    using assms(1) path_suffix_zip by blast
  with assms show ?thesis
    by (simp add: extract_archive_def Let_def mkdir_parents_def info_def emit_def)
qed

theorem extract_archive_unknown_format_witness:
  "fst (extract_archive linux_host [''tmp'', ''python.tar.bz2''] [''home'', ''u'', ''.python-nonadmin''] 1 home_world)
     = Inl (ValueError ''Unknown archive format: python.tar.bz2'')
   \<and> dirs (snd (extract_archive linux_host [''tmp'', ''python.tar.bz2''] [''home'', ''u'', ''.python-nonadmin''] 1 home_world))
        [''home'', ''u'', ''.python-nonadmin'']
   \<and> files (snd (extract_archive linux_host [''tmp'', ''python.tar.bz2''] [''home'', ''u'', ''.python-nonadmin''] 1 home_world))
       = files home_world
   \<and> \<not> dirs home_world [''home'', ''u'', ''.python-nonadmin'']"
proof -
  let ?A = "[''tmp'', ''python.tar.bz2'']"
  have n: "\<not> endswith (path_name ?A) ''.zip''" "\<not> endswith (path_name ?A) ''.tar.gz''"
      "\<not> endswith (path_name ?A) ''.tgz''"
    by (simp_all add: endswith_def path_name_def suffix_to_prefix)
  have p: "path_name ?A = ''python.tar.bz2''" by (simp add: path_name_def)
  have d: "\<not> dirs home_world [''home'', ''u'', ''.python-nonadmin'']"
    by (simp add: home_world_def)
  from extract_archive_unknown_format [OF n, of linux_host "[''home'', ''u'', ''.python-nonadmin'']" 1 home_world] p d
  show ?thesis by auto
qed

subsection \<open>Shell profile\<close>

lemma prefix_before_foreign:
  assumes "c \<notin> set sub"
  shows "prefix sub (xs @ c # ys) \<longleftrightarrow> prefix sub xs"
proof
  assume "prefix sub (xs @ c # ys)"
  then consider "prefix sub xs" | us where "sub = xs @ us" "prefix us (c # ys)"
    by (auto simp: prefix_append)
  then show "prefix sub xs"
  proof cases
    case 1 then show ?thesis .
  next
    case 2
    with assms have "us = []" by (cases us) auto
    with 2 show ?thesis by simp
  qed
next
  assume "prefix sub xs" then show "prefix sub (xs @ c # ys)" by simp
qed

lemma py_count_absent: "sub \<noteq> [] \<Longrightarrow> \<not> py_in sub s \<Longrightarrow> py_count sub s = 0"
  unfolding py_in_def
  by (induction s) (auto split: if_splits)

lemma py_count_foreign:
  assumes "c \<notin> set sub" "sub \<noteq> []"
  shows "py_count sub (xs @ c # ys) = py_count sub xs + py_count sub ys"
proof (induction xs rule: length_induct)
  case (1 xs)
  show ?case
  proof (cases xs)
    case Nil
    from assms have "\<not> prefix sub (c # ys)" by (cases sub) auto
    with Nil assms show ?thesis by simp
  next
    case (Cons x xs')
    show ?thesis
    proof (cases "prefix sub xs")
      case True
      then obtain r where r: "xs = sub @ r" by (auto simp: prefix_def)
      have "length r < length xs" using r assms(2) by simp
      with 1 have IH: "py_count sub (r @ c # ys) = py_count sub r + py_count sub ys" by blast
      have "prefix sub (xs @ c # ys)" using True by simp
      then have "py_count sub (xs @ c # ys) = Suc (py_count sub (drop (length sub) (xs @ c # ys)))"
        using Cons assms(2) by simp
      also have "drop (length sub) (xs @ c # ys) = r @ c # ys" using r by simp
      finally have A: "py_count sub (xs @ c # ys) = Suc (py_count sub r + py_count sub ys)"
        using IH by simp
      have "py_count sub xs = Suc (py_count sub (drop (length sub) xs))"
        using True Cons assms(2) by simp
      also have "drop (length sub) xs = r" using r by simp
      finally show ?thesis using A by simp
    next
      case False
      then have "\<not> prefix sub (xs @ c # ys)" using assms(1) by (simp add: prefix_before_foreign)
      with False Cons assms(2) 1 show ?thesis by simp
    qed
  qed
qed

lemma py_count_self: "sub \<noteq> [] \<Longrightarrow> py_count sub sub = 1"
  by (cases sub) auto

lemma marker_chars:
  "CHR 0x0A \<notin> set marker" "CHR 0x22 \<notin> set marker" "CHR '':'' \<notin> set marker" "marker \<noteq> []"
  by (simp_all add: marker_def)

lemma py_count_block:
  assumes "\<not> py_in marker bin_dir"
  shows "py_count marker (path_block shell_name bin_dir) = 1"
proof -
  have bin: "py_count marker bin_dir = 0"
    using assms marker_chars(4) by (rule py_count_absent [rotated])
  have tail_sh: "py_count marker (''$PATH'' @ dq @ nl @ ''# End Python-NoAdmin'' @ nl) = 0"
    by (simp add: marker_def dq_def nl_def)
  have tail_fish: "py_count marker ('' $PATH'' @ nl @ ''# End Python-NoAdmin'' @ nl) = 0"
    by (simp add: marker_def dq_def nl_def)
  have head_sh: "py_count marker ''export PATH='' = 0" and head_fish: "py_count marker ''set -gx PATH '' = 0"
    by (simp_all add: marker_def)
  have sh: "py_count marker (''export PATH='' @ CHR 0x22 # bin_dir @ CHR '':'' # ''$PATH'' @ dq @ nl @ ''# End Python-NoAdmin'' @ nl) = 0"
    apply (subst py_count_foreign [OF marker_chars(2) marker_chars(4)])
    apply (subst py_count_foreign [OF marker_chars(3) marker_chars(4)])
    unfolding bin head_sh tail_sh by simp
  have fish: "py_count marker (''set -gx PATH '' @ CHR 0x22 # bin_dir @ CHR 0x22 # '' $PATH'' @ nl @ ''# End Python-NoAdmin'' @ nl) = 0"
    apply (subst py_count_foreign [OF marker_chars(2) marker_chars(4)])
    apply (subst py_count_foreign [OF marker_chars(2) marker_chars(4)])
    unfolding bin head_fish tail_fish by simp
  have split: "py_count marker ([] @ CHR 0x0A # marker @ CHR 0x0A # rest) = 1 + py_count marker rest" for rest
    apply (subst py_count_foreign [OF marker_chars(1) marker_chars(4)])
    apply (subst py_count_foreign [OF marker_chars(1) marker_chars(4)])
    unfolding py_count_self [OF marker_chars(4)] py_count.simps(1) using marker_chars(4) by simp
  show ?thesis
  proof (cases "shell_name = ''fish''")
    case True
    then have "path_block shell_name bin_dir = [] @ CHR 0x0A # marker @ CHR 0x0A # (''set -gx PATH '' @ CHR 0x22 # bin_dir @ CHR 0x22 # '' $PATH'' @ nl @ ''# End Python-NoAdmin'' @ nl)"
      by (simp add: path_block_def nl_def dq_def)
    then show ?thesis by (simp only: split fish)
  next
    case False
    then have "path_block shell_name bin_dir = [] @ CHR 0x0A # marker @ CHR 0x0A # (''export PATH='' @ CHR 0x22 # bin_dir @ CHR '':'' # ''$PATH'' @ dq @ nl @ ''# End Python-NoAdmin'' @ nl)"
      by (simp add: path_block_def nl_def dq_def)
    then show ?thesis by (simp only: split sh)
  qed
qed

lemma path_block_starts: "\<exists>rest. path_block shell_name bin_dir = CHR 0x0A # marker @ rest"
  by (simp add: path_block_def nl_def)

lemma py_count_after_append:
  assumes "\<not> py_in marker old" "\<not> py_in marker bin_dir"
  shows "py_count marker (old @ path_block shell_name bin_dir) = 1"
proof -
  obtain rest where b: "path_block shell_name bin_dir = CHR 0x0A # rest"
    using path_block_starts by blast
  have "py_count marker (old @ CHR 0x0A # rest) = py_count marker old + py_count marker rest"
    by (rule py_count_foreign [OF marker_chars(1) marker_chars(4)])
  moreover have "py_count marker ([] @ CHR 0x0A # rest) = py_count marker [] + py_count marker rest"
    by (rule py_count_foreign [OF marker_chars(1) marker_chars(4)])
  moreover have "py_count marker old = 0"
    using assms(1) marker_chars(4) by (rule py_count_absent [rotated])
  ultimately have "py_count marker (old @ path_block shell_name bin_dir) = py_count marker (path_block shell_name bin_dir)"
    using b marker_chars(4) by simp
  with py_count_block [OF assms(2)] show ?thesis by simp
qed

lemma marker_in_block: "py_in marker (old @ path_block shell_name bin_dir)"
proof -
  obtain rest where "path_block shell_name bin_dir = CHR 0x0A # marker @ rest"
    using path_block_starts by blast
  then have "old @ path_block shell_name bin_dir = (old @ [CHR 0x0A]) @ marker @ rest" by simp
  then show ?thesis unfolding py_in_iff by blast
qed

lemma configure_present:
  assumes "path_exists (select_profile h w (detect_shell h)) w"
      "py_in marker (read_text (select_profile h w (detect_shell h)) w)"
  shows "configure_path_unix h install_dir w =
     w\<lparr>events := events w @
        [Say INFO (''Configuring shell profile: '' @ str_path h (select_profile h w (detect_shell h))),
         Say INFO ''Shell profile already configured'']\<rparr>"
  using assms
  by (simp add: configure_path_unix_def Let_def info_def emit_def path_exists_def read_text_def)

lemma configure_absent:
  assumes "\<not> (path_exists (select_profile h w (detect_shell h)) w
      \<and> py_in marker (read_text (select_profile h w (detect_shell h)) w))"
  shows "configure_path_unix h install_dir w =
     w\<lparr>dirs := (\<lambda>q. prefix q (butlast (select_profile h w (detect_shell h))) \<or> dirs w q),
       files := (files w)(select_profile h w (detect_shell h) \<mapsto>
                  read_text (select_profile h w (detect_shell h)) w
                    @ path_block (detect_shell h) (str_path h (install_dir @ [''bin'']))),
       events := events w @
        [Say INFO (''Configuring shell profile: '' @ str_path h (select_profile h w (detect_shell h))),
         MkdirParents (butlast (select_profile h w (detect_shell h))),
         AppendFile (select_profile h w (detect_shell h)),
         Say SUCCESS (''Added Python to PATH in '' @ str_path h (select_profile h w (detect_shell h))),
         Say WARNING (''Run '' @ sq @ ''source '' @ str_path h (select_profile h w (detect_shell h))
                        @ sq @ '' or restart your terminal'')]\<rparr>"
  using assms
  by (auto simp add: configure_path_unix_def Let_def info_def emit_def path_exists_def read_text_def
        mkdir_parents_def append_text_def success_def warn_def)

lemma select_profile_stable:
  "select_profile h (configure_path_unix h install_dir w) shell_name = select_profile h w shell_name"
proof (cases "path_exists (select_profile h w (detect_shell h)) w
      \<and> py_in marker (read_text (select_profile h w (detect_shell h)) w)")
  case True
  then show ?thesis
    by (simp add: configure_present select_profile_def path_exists_def)
next
  case False
  have np: "\<not> prefix (home h @ [''.bash_profile'']) (butlast (select_profile h w (detect_shell h)))"
    by (auto simp: select_profile_def Let_def butlast_append prefix_def)
  show ?thesis
    using np
    by (auto simp add: configure_absent [OF False] select_profile_def [of h _ shell_name] path_exists_def Let_def)
       (auto simp: select_profile_def Let_def path_exists_def split: if_splits)
qed

text \<open>
  Claim C5. Let \<open>profile\<close> be the file that \<open>select_profile\<close> picks for the detected
  shell. If it exists and its text contains the marker, \<open>configure_path_unix\<close> changes
  no file and no directory. Otherwise it appends one block to the old text of the
  profile: the marker line, the export (or, for fish, set) line and the end marker; every
  other file keeps its text and no directory is removed. A second run picks the same
  profile and changes nothing. So after two runs on a profile without the marker the
  text is the old text followed by one block, and the marker occurs in it exactly once
  (for a \<open>bin\<close> directory whose path does not itself contain the marker text).
\<close>

theorem configure_path_unix_idempotent:
  "let shell_name = detect_shell h;
       profile = select_profile h w shell_name;
       bin_dir = str_path h (install_dir @ [''bin'']);
       block = path_block shell_name bin_dir;
       w1 = configure_path_unix h install_dir w;
       w2 = configure_path_unix h install_dir w1
   in (path_exists profile w \<and> py_in marker (read_text profile w) \<longrightarrow>
         files w1 = files w \<and> dirs w1 = dirs w
         \<and> events w1 = events w @ [Say INFO (''Configuring shell profile: '' @ str_path h profile),
                                    Say INFO ''Shell profile already configured''])
    \<and> (\<not> (path_exists profile w \<and> py_in marker (read_text profile w)) \<longrightarrow>
         files w1 = (files w)(profile \<mapsto> read_text profile w @ block)
         \<and> (\<forall>q. dirs w q \<longrightarrow> dirs w1 q))
    \<and> block = nl @ marker @ nl
               @ (if shell_name = ''fish'' then ''set -gx PATH '' @ dq @ bin_dir @ dq @ '' $PATH''
                  else ''export PATH='' @ dq @ bin_dir @ '':$PATH'' @ dq)
               @ nl @ ''# End Python-NoAdmin'' @ nl
    \<and> select_profile h w1 shell_name = profile
    \<and> files w2 = files w1 \<and> dirs w2 = dirs w1 \<and> registry w2 = registry w
    \<and> (\<not> py_in marker (read_text profile w) \<longrightarrow>
         read_text profile w2 = read_text profile w @ block
         \<and> (\<not> py_in marker bin_dir \<longrightarrow> py_count marker (read_text profile w2) = 1))"
proof -
  define shell_name where "shell_name = detect_shell h"
  define profile where "profile = select_profile h w shell_name"
  define bin_dir where "bin_dir = str_path h (install_dir @ [''bin''])"
  define block where "block = path_block shell_name bin_dir"
  define w1 where "w1 = configure_path_unix h install_dir w"
  define w2 where "w2 = configure_path_unix h install_dir w1"
  note defs = shell_name_def profile_def bin_dir_def block_def
  have A: "files w1 = files w \<and> dirs w1 = dirs w
         \<and> events w1 = events w @ [Say INFO (''Configuring shell profile: '' @ str_path h profile),
                                    Say INFO ''Shell profile already configured'']"
    if "path_exists profile w \<and> py_in marker (read_text profile w)"
    using that unfolding w1_def defs by (simp add: configure_present)
  have B: "files w1 = (files w)(profile \<mapsto> read_text profile w @ block)
         \<and> (\<forall>q. dirs w q \<longrightarrow> dirs w1 q)"
    if "\<not> (path_exists profile w \<and> py_in marker (read_text profile w))"
    using that unfolding w1_def defs by (simp add: configure_absent)
  have C: "block = nl @ marker @ nl
               @ (if shell_name = ''fish'' then ''set -gx PATH '' @ dq @ bin_dir @ dq @ '' $PATH''
                  else ''export PATH='' @ dq @ bin_dir @ '':$PATH'' @ dq)
               @ nl @ ''# End Python-NoAdmin'' @ nl"
    by (simp add: block_def path_block_def)
  have D: "select_profile h w1 shell_name = profile"
    unfolding w1_def profile_def by (rule select_profile_stable)
  have reg1: "registry w1 = registry w"
    unfolding w1_def
    by (cases "path_exists (select_profile h w (detect_shell h)) w
           \<and> py_in marker (read_text (select_profile h w (detect_shell h)) w)")
       (simp_all add: configure_present configure_absent)
  have present1: "path_exists profile w1 \<and> py_in marker (read_text profile w1)"
  proof (cases "path_exists profile w \<and> py_in marker (read_text profile w)")
    case True
    with A show ?thesis by (simp add: path_exists_def read_text_def)
  next
    case False
    from B [OF False] have "files w1 profile = Some (read_text profile w @ block)" by simp
    then show ?thesis
      by (simp add: path_exists_def read_text_def [of profile w1] block_def marker_in_block)
  qed
  have second: "w2 = w1\<lparr>events := events w1 @
        [Say INFO (''Configuring shell profile: '' @ str_path h profile),
         Say INFO ''Shell profile already configured'']\<rparr>"
    unfolding w2_def
    using present1 D configure_present [of h w1 install_dir]
    by (simp add: shell_name_def)
  have E: "files w2 = files w1 \<and> dirs w2 = dirs w1 \<and> registry w2 = registry w"
    using second reg1 by simp
  have F: "read_text profile w2 = read_text profile w @ block
         \<and> (\<not> py_in marker bin_dir \<longrightarrow> py_count marker (read_text profile w2) = 1)"
    if nm: "\<not> py_in marker (read_text profile w)"
  proof -
    from nm have "\<not> (path_exists profile w \<and> py_in marker (read_text profile w))" by simp
    from B [OF this] have "read_text profile w1 = read_text profile w @ block"
      by (simp add: read_text_def [of profile w1])
    with E have r: "read_text profile w2 = read_text profile w @ block"
      by (simp add: read_text_def [of profile w2] read_text_def [of profile w1])
    show ?thesis using r nm by (simp add: block_def py_count_after_append)
  qed
  show ?thesis
    unfolding Let_def
    using A B C D E F
    unfolding w2_def w1_def block_def bin_dir_def profile_def shell_name_def
    by blast
qed

theorem configure_path_unix_idempotent_witness:
  "read_text [''home'', ''u'', ''.bashrc'']
      (configure_path_unix linux_host [''home'', ''u'', ''.python-nonadmin'']
         (configure_path_unix linux_host [''home'', ''u'', ''.python-nonadmin''] home_world))
     = nl @ ''# Python-NoAdmin PATH'' @ nl @ ''export PATH='' @ dq
         @ ''/home/u/.python-nonadmin/bin:$PATH'' @ dq @ nl @ ''# End Python-NoAdmin'' @ nl
   \<and> py_count marker (read_text [''home'', ''u'', ''.bashrc'']
      (configure_path_unix linux_host [''home'', ''u'', ''.python-nonadmin'']
         (configure_path_unix linux_host [''home'', ''u'', ''.python-nonadmin''] home_world))) = 1
   \<and> files (configure_path_unix linux_host [''home'', ''u'', ''.python-nonadmin'']
               (home_world\<lparr>files := [[''home'', ''u'', ''.bashrc''] \<mapsto> ''# Python-NoAdmin PATH'']\<rparr>))
       = [[''home'', ''u'', ''.bashrc''] \<mapsto> ''# Python-NoAdmin PATH'']"
proof -
  let ?D = "[''home'', ''u'', ''.python-nonadmin'']"
  let ?cw = "home_world\<lparr>files := [[''home'', ''u'', ''.bashrc''] \<mapsto> ''# Python-NoAdmin PATH'']\<rparr>"
  have ds: "detect_shell linux_host = ''bash''"
    by (simp add: detect_shell_def linux_host_def path_of_string_def path_name_def)
  have sp: "select_profile linux_host home_world ''bash'' = [''home'', ''u'', ''.bashrc'']"
      "select_profile linux_host ?cw ''bash'' = [''home'', ''u'', ''.bashrc'']"
    by (simp_all add: select_profile_def linux_host_def home_world_def path_exists_def Let_def)
  have rt: "read_text [''home'', ''u'', ''.bashrc''] home_world = []"
      "read_text [''home'', ''u'', ''.bashrc''] ?cw = ''# Python-NoAdmin PATH''"
      "path_exists [''home'', ''u'', ''.bashrc''] ?cw"
    by (simp_all add: read_text_def home_world_def path_exists_def)
  have nb: "str_path linux_host (?D @ [''bin'']) = ''/home/u/.python-nonadmin/bin''"
    by (simp add: str_path_def linux_host_def)
  have nm: "\<not> py_in marker []" "\<not> py_in marker ''/home/u/.python-nonadmin/bin''"
      "py_in marker ''# Python-NoAdmin PATH''"
    by (simp_all add: py_in_def marker_def)
  have blk: "path_block ''bash'' ''/home/u/.python-nonadmin/bin''
     = nl @ ''# Python-NoAdmin PATH'' @ nl @ ''export PATH='' @ dq
         @ ''/home/u/.python-nonadmin/bin:$PATH'' @ dq @ nl @ ''# End Python-NoAdmin'' @ nl"
    by (simp add: path_block_def marker_def)
  note fresh = configure_path_unix_idempotent [of linux_host home_world ?D, unfolded Let_def ds sp rt nb]
  note again = configure_path_unix_idempotent [of linux_host ?cw ?D, unfolded Let_def ds sp rt nb]
  note last_fresh = fresh [THEN conjunct2, THEN conjunct2, THEN conjunct2, THEN conjunct2,
      THEN conjunct2, THEN conjunct2, THEN conjunct2, THEN mp, OF nm(1)]
  note once = last_fresh [THEN conjunct1] last_fresh [THEN conjunct2, THEN mp, OF nm(2)]
  note kept = again [THEN conjunct1, THEN mp, OF conjI, OF rt(3) nm(3), THEN conjunct1]
  from once kept show ?thesis by (simp add: blk)
qed

subsection \<open>The path-configuration file of the embeddable package\<close>

lemma py_replace_first:
  "old \<noteq> [] \<Longrightarrow> py_find old s = Some i \<Longrightarrow>
     py_replace old new s = take i s @ new @ py_replace old new (drop (i + length old) s)"
proof (induction s arbitrary: i)
  case Nil
  then show ?case by simp
next
  case (Cons c cs)
  show ?case
  proof (cases "prefix old (c # cs)")
    case True
    with Cons.prems have "i = 0" by simp
    with True Cons.prems show ?thesis by simp
  next
    case False
    with Cons.prems obtain j where j: "py_find old cs = Some j" "i = Suc j" by auto
    with Cons.IH [OF Cons.prems(1) j(1)] False Cons.prems(1) show ?thesis by simp
  qed
qed

lemma py_replace_absent: "old \<noteq> [] \<Longrightarrow> \<not> py_in old s \<Longrightarrow> py_replace old new s = s"
  unfolding py_in_def
  by (induction s) (auto split: if_splits)

lemma commented_is_directive: "py_in (c # sub) s \<Longrightarrow> py_in sub s"
proof -
  assume "py_in (c # sub) s"
  then obtain p q where "s = p @ (c # sub) @ q" unfolding py_in_iff by blast
  then have "s = (p @ [c]) @ sub @ q" by simp
  then show ?thesis unfolding py_in_iff by blast
qed

lemma read_text_info: "read_text p (info msg w) = read_text p w"
  by (simp add: read_text_def info_def emit_def)

lemma embed_zip_name: "path_suffix (t @ [''python-embed.zip'']) = ''.zip''"
  by (simp add: path_suffix_def path_name_def Let_def)

lemma fetch_embeddable_body:
  assumes "urlopen h url = Body data"
  shows "fst (fetch_embeddable h version install_dir url w) = Inr ()"
  using assms
  by (simp add: fetch_embeddable_def with_tempdir_def download_file_def extract_archive_def
        Let_def embed_zip_name split: prod.splits)

lemma install_windows_fetch:
  "get_windows_embed_url version arch = Inr url \<Longrightarrow>
   fst (fetch_embeddable h version install_dir url w0) = Inr () \<Longrightarrow>
   install_windows h version install_dir arch w0
     = (Inr (install_dir @ [''python.exe'']),
        configure_pth version install_dir (snd (fetch_embeddable h version install_dir url w0)))"
  by (cases "fetch_embeddable h version install_dir url w0") (simp add: install_windows_def)

lemma install_windows_Inr:
  assumes "install_windows h version install_dir arch w0 = (Inr python_exe, w1)"
  shows "python_exe = install_dir @ [''python.exe'']
     \<and> (\<exists>url. get_windows_embed_url version arch = Inr url
            \<and> fst (fetch_embeddable h version install_dir url w0) = Inr ()
            \<and> w1 = configure_pth version install_dir
                     (snd (fetch_embeddable h version install_dir url w0)))"
  using assms
  by (auto simp: install_windows_def split: sum.splits prod.splits)

lemma fetched_pth:
  "files (snd (fetch_embeddable windows_host ''3.12.8'' [''Users'', ''u'', ''.python-nonadmin'']
            ''https://www.python.org/ftp/python/3.12.8/python-3.12.8-embed-amd64.zip'' windows_world))
     [''Users'', ''u'', ''.python-nonadmin'', ''python312._pth''] = Some embed_pth"
proof -
  let ?D = "[''Users'', ''u'', ''.python-nonadmin'']"
  have zp: "zip_parts windows_host ''python.exe'' = [''python.exe'']"
    "zip_parts windows_host ''python312._pth'' = [''python312._pth'']"
    by (simp_all add: zip_parts_def windows_host_def Let_def bs_def windows_illegal_def dq_def)
  have ew: "\<not> endswith ''python.exe'' ''/''" "\<not> endswith ''python312._pth'' ''/''"
     "\<not> endswith ''python.exe'' bs" "\<not> endswith ''python312._pth'' bs"
    by (simp_all add: endswith_def suffix_to_prefix bs_def)
  have zx: "files (zip_extractall windows_host (zip_members windows_host d) ?D w)
       [''Users'', ''u'', ''.python-nonadmin'', ''python312._pth''] = Some embed_pth" for d w
    by (simp add: windows_host_def [THEN arg_cong [of _ _ zip_members]] zip_place_def Let_def zp ew
          emit_def make_upperdirs_def embed_pth_def)
  show ?thesis
    by (simp add: fetch_embeddable_def with_tempdir_def download_file_def extract_archive_def
        Let_def embed_zip_name rmtree_def emit_def success_def zx windows_host_def [THEN arg_cong [of _ _ tmpdir]]
        windows_host_def [THEN arg_cong [of _ _ urlopen]] split: prod.splits)
qed

text \<open>
  Claim C6. \<open>install_windows\<close> ends, after the extraction, with \<open>configure_pth\<close> on
  the file python<major><minor>._pth of the install directory: whenever the URL is
  resolved and the download answers with a body, the download, removal and extraction
  succeed, and the result of \<open>install_windows\<close> is \<open>configure_pth\<close> applied to the state
  they leave; a successful \<open>install_windows\<close> has no other form. When the file exists:
  if its text contains \<open>#import site\<close>, the file is rewritten with the occurrences
  replaced by \<open>import site\<close> (the first one at its index, the rest of the text treated
  the same way); if its text contains no \<open>import site\<close> at all, the line
  \<open>import site\<close> is appended; in the remaining case, where \<open>import site\<close> occurs and
  no occurrence is commented out, no file changes. A text with the commented
  directive contains the directive, so the three cases cover every text.
\<close>

theorem configure_pth_cases:
  "let pth_file = install_dir @ [''python'' @ concat (take 2 (split_on CHR ''.'' version)) @ ''._pth''];
       content = read_text pth_file w;
       w' = configure_pth version install_dir w
   in (path_exists pth_file w \<and> py_in ''#import site'' content \<longrightarrow>
         files w' = (files w)(pth_file \<mapsto> py_replace ''#import site'' ''import site'' content)
         \<and> (\<forall>i. py_find ''#import site'' content = Some i \<longrightarrow>
               py_replace ''#import site'' ''import site'' content
                 = take i content @ ''import site''
                     @ py_replace ''#import site'' ''import site'' (drop (i + 12) content)))
    \<and> (path_exists pth_file w \<and> \<not> py_in ''import site'' content \<longrightarrow>
         files w' = (files w)(pth_file \<mapsto> content @ nl @ ''import site'' @ nl))
    \<and> (path_exists pth_file w \<and> py_in ''import site'' content \<and> \<not> py_in ''#import site'' content \<longrightarrow>
         files w' = files w)
    \<and> (\<not> path_exists pth_file w \<longrightarrow> w' = w)
    \<and> (py_in ''#import site'' content \<longrightarrow> py_in ''import site'' content)
    \<and> dirs w' = dirs w \<and> registry w' = registry w
    \<and> (\<forall>h arch w0 url data.
          get_windows_embed_url version arch = Inr url \<and> urlopen h url = Body data \<longrightarrow>
            fst (fetch_embeddable h version install_dir url w0) = Inr ()
            \<and> install_windows h version install_dir arch w0
                = (Inr (install_dir @ [''python.exe'']),
                   configure_pth version install_dir
                     (snd (fetch_embeddable h version install_dir url w0))))
    \<and> (\<forall>h arch w0 python_exe w1.
          install_windows h version install_dir arch w0 = (Inr python_exe, w1) \<longrightarrow>
            python_exe = install_dir @ [''python.exe'']
            \<and> (\<exists>url. get_windows_embed_url version arch = Inr url
                   \<and> fst (fetch_embeddable h version install_dir url w0) = Inr ()
                   \<and> w1 = configure_pth version install_dir
                            (snd (fetch_embeddable h version install_dir url w0))))"
proof -
  define pth_file where
    "pth_file = install_dir @ [''python'' @ concat (take 2 (split_on CHR ''.'' version)) @ ''._pth'']"
  define content where "content = read_text pth_file w"
  have A: "path_exists pth_file w \<and> py_in ''#import site'' content \<longrightarrow>
         files (configure_pth version install_dir w)
           = (files w)(pth_file \<mapsto> py_replace ''#import site'' ''import site'' content)"
    unfolding content_def pth_file_def
    by (simp add: configure_pth_def Let_def read_text_info write_text_def success_def emit_def)
       (simp add: info_def emit_def)
  have A2: "\<forall>i. py_find ''#import site'' content = Some i \<longrightarrow>
               py_replace ''#import site'' ''import site'' content
                 = take i content @ ''import site''
                     @ py_replace ''#import site'' ''import site'' (drop (i + 12) content)"
  proof (intro allI impI)
    fix i
    assume found: "py_find ''#import site'' content = Some i"
    have ne: "''#import site'' \<noteq> []" by simp
    have len: "length ''#import site'' = 12" by simp
    from py_replace_first [OF ne found, of "''import site''"]
    show "py_replace ''#import site'' ''import site'' content
            = take i content @ ''import site''
                @ py_replace ''#import site'' ''import site'' (drop (i + 12) content)"
      by (simp only: len)
  qed
  have imp: "py_in ''#import site'' content \<longrightarrow> py_in ''import site'' content"
    using commented_is_directive by blast
  have B: "path_exists pth_file w \<and> \<not> py_in ''import site'' content \<longrightarrow>
         files (configure_pth version install_dir w)
           = (files w)(pth_file \<mapsto> content @ nl @ ''import site'' @ nl)"
    using imp unfolding content_def pth_file_def
    by (auto simp add: configure_pth_def Let_def read_text_info append_text_def success_def emit_def)
       (simp_all add: info_def emit_def read_text_def)
  have C: "path_exists pth_file w \<and> py_in ''import site'' content \<and> \<not> py_in ''#import site'' content \<longrightarrow>
         files (configure_pth version install_dir w) = files w"
    unfolding content_def pth_file_def
    by (simp add: configure_pth_def Let_def read_text_info) (simp add: info_def emit_def)
  have D: "\<not> path_exists pth_file w \<longrightarrow> configure_pth version install_dir w = w"
    unfolding pth_file_def
    by (simp add: configure_pth_def Let_def)
  have E: "dirs (configure_pth version install_dir w) = dirs w
      \<and> registry (configure_pth version install_dir w) = registry w"
    by (simp add: configure_pth_def Let_def write_text_def append_text_def success_def info_def emit_def)
  have F: "\<forall>h arch w0 url data.
          get_windows_embed_url version arch = Inr url \<and> urlopen h url = Body data \<longrightarrow>
            fst (fetch_embeddable h version install_dir url w0) = Inr ()
            \<and> install_windows h version install_dir arch w0
                = (Inr (install_dir @ [''python.exe'']),
                   configure_pth version install_dir
                     (snd (fetch_embeddable h version install_dir url w0)))"
    using fetch_embeddable_body install_windows_fetch by blast
  have G: "\<forall>h arch w0 python_exe w1.
          install_windows h version install_dir arch w0 = (Inr python_exe, w1) \<longrightarrow>
            python_exe = install_dir @ [''python.exe'']
            \<and> (\<exists>url. get_windows_embed_url version arch = Inr url
                   \<and> fst (fetch_embeddable h version install_dir url w0) = Inr ()
                   \<and> w1 = configure_pth version install_dir
                            (snd (fetch_embeddable h version install_dir url w0)))"
    using install_windows_Inr by blast
  from A A2 B C D E imp
  have H: "(path_exists pth_file w \<and> py_in ''#import site'' content \<longrightarrow>
         files (configure_pth version install_dir w)
           = (files w)(pth_file \<mapsto> py_replace ''#import site'' ''import site'' content)
         \<and> (\<forall>i. py_find ''#import site'' content = Some i \<longrightarrow>
               py_replace ''#import site'' ''import site'' content
                 = take i content @ ''import site''
                     @ py_replace ''#import site'' ''import site'' (drop (i + 12) content)))
    \<and> (path_exists pth_file w \<and> \<not> py_in ''import site'' content \<longrightarrow>
         files (configure_pth version install_dir w)
           = (files w)(pth_file \<mapsto> content @ nl @ ''import site'' @ nl))
    \<and> (path_exists pth_file w \<and> py_in ''import site'' content \<and> \<not> py_in ''#import site'' content \<longrightarrow>
         files (configure_pth version install_dir w) = files w)
    \<and> (\<not> path_exists pth_file w \<longrightarrow> configure_pth version install_dir w = w)
    \<and> (py_in ''#import site'' content \<longrightarrow> py_in ''import site'' content)
    \<and> dirs (configure_pth version install_dir w) = dirs w
    \<and> registry (configure_pth version install_dir w) = registry w"
    by blast
  show ?thesis
    unfolding Let_def
    using H F G
    unfolding content_def pth_file_def
    by blast
qed

theorem configure_pth_cases_witness:
  "files (configure_pth ''3.12.8'' [''Users'', ''u'', ''.python-nonadmin''] (pth_world embed_pth))
       [''Users'', ''u'', ''.python-nonadmin'', ''python312._pth'']
     = Some (''python312.zip'' @ nl @ ''.'' @ nl @ nl
               @ ''# Uncomment to run site.main() automatically'' @ nl @ ''import site'' @ nl)
   \<and> files (configure_pth ''3.12.8'' [''Users'', ''u'', ''.python-nonadmin'']
               (pth_world (''python312.zip'' @ nl @ ''.'' @ nl)))
       [''Users'', ''u'', ''.python-nonadmin'', ''python312._pth'']
     = Some (''python312.zip'' @ nl @ ''.'' @ nl @ nl @ ''import site'' @ nl)
   \<and> files (configure_pth ''3.12.8'' [''Users'', ''u'', ''.python-nonadmin'']
               (pth_world (''python312.zip'' @ nl @ ''import site'' @ nl)))
     = files (pth_world (''python312.zip'' @ nl @ ''import site'' @ nl))
   \<and> files windows_world [''Users'', ''u'', ''.python-nonadmin'', ''python312._pth''] = None
   \<and> fst (install_windows windows_host ''3.12.8'' [''Users'', ''u'', ''.python-nonadmin'']
             ''x86_64'' windows_world)
     = Inr [''Users'', ''u'', ''.python-nonadmin'', ''python.exe'']
   \<and> files (snd (install_windows windows_host ''3.12.8'' [''Users'', ''u'', ''.python-nonadmin'']
                    ''x86_64'' windows_world))
       [''Users'', ''u'', ''.python-nonadmin'', ''python312._pth'']
     = Some (''python312.zip'' @ nl @ ''.'' @ nl @ nl
               @ ''# Uncomment to run site.main() automatically'' @ nl @ ''import site'' @ nl)"
proof -
  let ?D = "[''Users'', ''u'', ''.python-nonadmin'']"
  let ?P = "[''Users'', ''u'', ''.python-nonadmin'', ''python312._pth'']"
  let ?U = "''https://www.python.org/ftp/python/3.12.8/python-3.12.8-embed-amd64.zip''"
  define W where "W = snd (fetch_embeddable windows_host ''3.12.8'' ?D ?U windows_world)"
  have p: "?D @ [''python'' @ concat (take 2 (split_on CHR ''.'' ''3.12.8'')) @ ''._pth''] = ?P"
    by simp
  have ex: "path_exists ?P (pth_world c)" and rd: "read_text ?P (pth_world c) = c" for c
    by (simp_all add: path_exists_def read_text_def pth_world_def)
  have c1: "py_in ''#import site'' embed_pth"
    by (simp add: py_in_def embed_pth_def nl_def)
  have r1: "py_replace ''#import site'' ''import site'' embed_pth
      = ''python312.zip'' @ nl @ ''.'' @ nl @ nl
               @ ''# Uncomment to run site.main() automatically'' @ nl @ ''import site'' @ nl"
    by (simp add: embed_pth_def nl_def)
  have c2: "\<not> py_in ''import site'' (''python312.zip'' @ nl @ ''.'' @ nl)"
    by (simp add: py_in_def nl_def)
  have c3: "py_in ''import site'' (''python312.zip'' @ nl @ ''import site'' @ nl)"
      "\<not> py_in ''#import site'' (''python312.zip'' @ nl @ ''import site'' @ nl)"
    by (simp_all add: py_in_def nl_def)
  note t1 = configure_pth_cases [of ?D "''3.12.8''" "pth_world embed_pth", unfolded Let_def p rd,
      THEN conjunct1, THEN mp, OF conjI, OF ex c1, THEN conjunct1]
  note t2 = configure_pth_cases [of ?D "''3.12.8''" "pth_world (''python312.zip'' @ nl @ ''.'' @ nl)",
      unfolded Let_def p rd, THEN conjunct2, THEN conjunct1, THEN mp, OF conjI, OF ex c2]
  note t3 = configure_pth_cases [of ?D "''3.12.8''" "pth_world (''python312.zip'' @ nl @ ''import site'' @ nl)",
      unfolded Let_def p rd, THEN conjunct2, THEN conjunct2, THEN conjunct1, THEN mp,
      OF conjI, OF ex conjI, OF c3]
  have u: "get_windows_embed_url ''3.12.8'' ''x86_64'' = Inr ?U"
    by (simp add: get_windows_embed_url_def PYTHON_ORG_BASE_def)
  have b: "urlopen windows_host ?U = Body ''zip''"
    by (simp add: windows_host_def)
  have fw: "files W ?P = Some embed_pth"
    unfolding W_def by (rule fetched_pth)
  have exW: "path_exists ?P W" and rdW: "read_text ?P W = embed_pth"
    by (simp_all add: path_exists_def read_text_def fw)
  note t4 = configure_pth_cases [of ?D "''3.12.8''" W, unfolded Let_def p rdW,
      THEN conjunct2, THEN conjunct2, THEN conjunct2, THEN conjunct2, THEN conjunct2,
      THEN conjunct2, THEN conjunct2, THEN conjunct1, rule_format, OF conjI, OF u b,
      THEN conjunct2]
  note t5 = configure_pth_cases [of ?D "''3.12.8''" W, unfolded Let_def p rdW,
      THEN conjunct1, THEN mp, OF conjI, OF exW c1, THEN conjunct1]
  have n: "files windows_world ?P = None" by (simp add: windows_world_def)
  from t1 t2 t3 n t4 t5 [unfolded W_def] show ?thesis by (simp add: r1)
qed

subsection \<open>The user PATH of the registry\<close>

lemma length_join_snoc:
  "length (join d (xs @ [y])) = length (join d xs) + (if xs = [] then 0 else length d) + length y"
  by (induction d xs rule: join.induct) auto

lemma scripts_dir_differs: "str_path h (install_dir @ [''Scripts'']) \<noteq> str_path h install_dir"
proof
  assume "str_path h (install_dir @ [''Scripts'']) = str_path h install_dir"
  then have "length (join (sep h) (install_dir @ [''Scripts''])) = length (join (sep h) install_dir)"
    by (simp add: str_path_def)
  then show False by (simp add: length_join_snoc)
qed

text \<open>
  Claim C7. When the Environment key opens, the current PATH (the empty string when the
  value is absent) is split on the semicolon into \<open>path_parts\<close> (no part for the empty
  string). The new list is \<open>path_parts\<close> with the install directory put in front exactly
  when it is not one of the parts, and its Scripts directory put in front of that
  exactly when it is not one of the parts: the added entries come before every
  existing one. The value is written, joined with semicolons, when at least one entry
  was added; when both are already parts the registry is not written and stays as it
  is. A key that cannot be opened is never written. Files and directories do not
  change.
\<close>

theorem configure_path_windows_prepends:
  "let install = str_path h install_dir;
       scripts = str_path h (install_dir @ [''Scripts'']);
       w' = configure_path_windows h install_dir w
   in (\<forall>vals. registry w = Opened vals \<longrightarrow>
        (let current_path = (case vals ''PATH'' of None \<Rightarrow> [] | Some v \<Rightarrow> v);
             path_parts = (if current_path = [] then [] else split_on CHR '';'' current_path);
             new_parts = (if scripts \<in> set path_parts then [] else [scripts])
                           @ (if install \<in> set path_parts then [] else [install]) @ path_parts
         in (install \<notin> set path_parts \<or> scripts \<notin> set path_parts \<longrightarrow>
               registry w' = Opened (vals(''PATH'' \<mapsto> join '';'' new_parts))
               \<and> events w' = events w @
                     [Say INFO ''Updating user PATH...'', SetValue ''PATH'' (join '';'' new_parts),
                      Say SUCCESS ''Added to user PATH'',
                      Say WARNING ''Restart your terminal for PATH changes to take effect''])
          \<and> (install \<in> set path_parts \<and> scripts \<in> set path_parts \<longrightarrow>
               registry w' = registry w
               \<and> events w' = events w @
                     [Say INFO ''Updating user PATH...'', Say INFO ''Already in user PATH''])))
    \<and> (\<forall>e. registry w = Denied e \<longrightarrow>
          registry w' = registry w
          \<and> events w' = events w @
                [Say INFO ''Updating user PATH...'',
                 Say WARNING (''Could not update PATH automatically: '' @ e),
                 Say INFO ''Please add these directories to your PATH manually:'',
                 Print (''  '' @ install), Print (''  '' @ scripts)])
    \<and> files w' = files w \<and> dirs w' = dirs w"
proof -
  note d = scripts_dir_differs [of h install_dir]
  have opened: "(install \<notin> set path_parts \<or> scripts \<notin> set path_parts \<longrightarrow>
               registry w' = Opened (vals(''PATH'' \<mapsto> join '';'' new_parts))
               \<and> events w' = events w @
                     [Say INFO ''Updating user PATH...'', SetValue ''PATH'' (join '';'' new_parts),
                      Say SUCCESS ''Added to user PATH'',
                      Say WARNING ''Restart your terminal for PATH changes to take effect''])
          \<and> (install \<in> set path_parts \<and> scripts \<in> set path_parts \<longrightarrow>
               registry w' = registry w
               \<and> events w' = events w @
                     [Say INFO ''Updating user PATH...'', Say INFO ''Already in user PATH''])"
    if "registry w = Opened vals"
      and "install = str_path h install_dir"
      and "scripts = str_path h (install_dir @ [''Scripts''])"
      and "w' = configure_path_windows h install_dir w"
      and "current_path = (case vals ''PATH'' of None \<Rightarrow> [] | Some v \<Rightarrow> v)"
      and "path_parts = (if current_path = [] then [] else split_on CHR '';'' current_path)"
      and "new_parts = (if scripts \<in> set path_parts then [] else [scripts])
                           @ (if install \<in> set path_parts then [] else [install]) @ path_parts"
    for vals install scripts w' current_path path_parts new_parts
    using that d
    by (simp add: configure_path_windows_def Let_def info_def emit_def set_value_def success_def warn_def)
  have denied: "registry (configure_path_windows h install_dir w) = registry w
          \<and> events (configure_path_windows h install_dir w) = events w @
                [Say INFO ''Updating user PATH...'',
                 Say WARNING (''Could not update PATH automatically: '' @ e),
                 Say INFO ''Please add these directories to your PATH manually:'',
                 Print (''  '' @ str_path h install_dir),
                 Print (''  '' @ str_path h (install_dir @ [''Scripts'']))]"
    if "registry w = Denied e" for e
    using that
    by (simp add: configure_path_windows_def Let_def info_def emit_def warn_def print_def)
  have frame: "files (configure_path_windows h install_dir w) = files w
      \<and> dirs (configure_path_windows h install_dir w) = dirs w"
  proof (cases "registry w")
    case (Denied e)
    then show ?thesis
      by (simp add: configure_path_windows_def Let_def info_def emit_def warn_def print_def)
  next
    case (Opened vals)
    then show ?thesis
      by (simp add: configure_path_windows_def Let_def info_def emit_def set_value_def success_def
            warn_def split: prod.splits)
  qed
  show ?thesis
    unfolding Let_def
    using opened [OF _ refl refl refl refl refl refl] denied frame
    unfolding Let_def
    by blast
qed

theorem configure_path_windows_prepends_witness:
  "registry (configure_path_windows windows_host [''Users'', ''u'', ''.python-nonadmin''] windows_world)
     = Opened [''PATH'' \<mapsto> ''C:'' @ bs @ ''Users'' @ bs @ ''u'' @ bs @ ''.python-nonadmin'' @ bs @ ''Scripts;C:''
                 @ bs @ ''Users'' @ bs @ ''u'' @ bs @ ''.python-nonadmin;C:'' @ bs @ ''Windows;C:'' @ bs @ ''Tools'']
   \<and> events (configure_path_windows windows_host [''Users'', ''u'', ''.python-nonadmin'']
        (windows_world\<lparr>registry := Opened [''PATH'' \<mapsto> ''C:'' @ bs @ ''Users'' @ bs @ ''u'' @ bs
            @ ''.python-nonadmin'' @ bs @ ''Scripts;C:'' @ bs @ ''Users'' @ bs @ ''u'' @ bs
            @ ''.python-nonadmin;C:'' @ bs @ ''Windows;C:'' @ bs @ ''Tools'']\<rparr>))
     = [Say INFO ''Updating user PATH...'', Say INFO ''Already in user PATH'']"
proof -
  let ?D = "[''Users'', ''u'', ''.python-nonadmin'']"
  let ?new = "''C:'' @ bs @ ''Users'' @ bs @ ''u'' @ bs @ ''.python-nonadmin'' @ bs @ ''Scripts;C:''
                 @ bs @ ''Users'' @ bs @ ''u'' @ bs @ ''.python-nonadmin;C:'' @ bs @ ''Windows;C:'' @ bs @ ''Tools''"
  let ?w = "windows_world\<lparr>registry := Opened [''PATH'' \<mapsto> ?new]\<rparr>"
  have r0: "registry windows_world = Opened [''PATH'' \<mapsto> ''C:'' @ bs @ ''Windows;C:'' @ bs @ ''Tools'']"
    by (simp add: windows_world_def)
  have r1: "registry ?w = Opened [''PATH'' \<mapsto> ?new]" by simp
  have e1: "events ?w = []" by (simp add: windows_world_def)
  note first = configure_path_windows_prepends [of windows_host ?D windows_world, unfolded Let_def,
      THEN conjunct1, rule_format, OF r0]
  note second = configure_path_windows_prepends [of windows_host ?D ?w, unfolded Let_def,
      THEN conjunct1, rule_format, OF r1]
  from first have a: "registry (configure_path_windows windows_host ?D windows_world)
     = Opened [''PATH'' \<mapsto> ?new]"
    by (simp add: windows_host_def str_path_def bs_def)
  from second e1 have b: "events (configure_path_windows windows_host ?D ?w)
     = [Say INFO ''Updating user PATH...'', Say INFO ''Already in user PATH'']"
    by (simp add: windows_host_def str_path_def bs_def)
  from a b show ?thesis by simp
qed

subsection \<open>Uninstall and install on an existing state\<close>









end
